theory Spec2Isabelle
  imports Main "HOL-Library.Char_ord" "HOL-Library.List_Lexorder"
begin

section \<open>The directory store (database.js)\<close>

text \<open>
  The store is an in-memory SQLite database (sql.js) with five tables, written out to
  a file by \<open>saveDb\<close> after every mutation. Each table is modelled by the rows it holds:
  \<^item> \<open>agents (id INTEGER PRIMARY KEY AUTOINCREMENT, telegram_id INTEGER UNIQUE NOT NULL,
     name TEXT NOT NULL, is_active INTEGER DEFAULT 0)\<close>: a list of rows in rowid order,
     together with the AUTOINCREMENT counter SQLite keeps for the table;
  \<^item> \<open>admins (telegram_id INTEGER PRIMARY KEY)\<close>: a list of ids;
  \<^item> \<open>conversation_logs\<close>: a list of rows in insertion order (the surrogate id of a
     row is never read by the code and is left out);
  \<^item> \<open>agent_sessions\<close> and \<open>message_mappings\<close>, each with an INTEGER PRIMARY KEY and
     written only by delete-then-insert or INSERT OR REPLACE: maps from the key to the
     rest of the row.
  JavaScript numbers holding ids are \<open>int\<close>; the column \<open>is_active\<close> is the integer the
  code stores (0 or 1), read with JavaScript truthiness in server.js and with
  \<open>is_active = 1\<close> in SQL.
\<close>

record agent =
  row_id :: int
  telegram_id :: int
  name :: string
  is_active :: int

datatype direction = user_to_agent | agent_to_user

record log_entry =
  timestamp :: string
  user_id :: int
  user_name :: string
  agent_id :: int
  agent_name :: string
  direction :: direction
  message :: string

text \<open>The object \<open>{ userId, userName }\<close> returned by \<open>getAgentSession\<close> and
  \<open>getMessageMapping\<close>; the two tables store exactly these two columns per key.\<close>

record target =
  userId :: int
  userName :: string

record tables =
  agents :: "agent list"
  agents_seq :: int
  admins :: "int list"
  conversation_logs :: "log_entry list"
  agent_sessions :: "int \<rightharpoonup> target"
  message_mappings :: "int \<rightharpoonup> target"

text \<open>The module state: the in-memory database \<open>db\<close> and the sequence of images that
  \<open>saveDb\<close> has written to \<open>DB_PATH\<close>, oldest first.\<close>

record store =
  db :: tables
  saved :: "tables list"

definition saveDb :: "store \<Rightarrow> store" where
  "saveDb st = st\<lparr>saved := saved st @ [db st]\<rparr>"

text \<open>\<open>db.run\<close> of one SQL statement: it changes the in-memory tables only.\<close>

definition run :: "(tables \<Rightarrow> tables) \<Rightarrow> store \<Rightarrow> store" where
  "run stmt st = st\<lparr>db := stmt (db st)\<rparr>"

text \<open>The result object \<open>{ success, message }\<close> of the agent operations. The two
  failure results of the source both carry the message "Agent not found".\<close>

datatype result = Success string | NotFound

subsection \<open>Admin management\<close>

definition isAdmin :: "int \<Rightarrow> store \<Rightarrow> bool" where
  "isAdmin telegramId st = ([r \<leftarrow> admins (db st). r = telegramId] \<noteq> [])"

text \<open>The INSERT throws on a duplicate primary key; the \<open>catch\<close> returns false
  without saving.\<close>

definition addAdmin :: "int \<Rightarrow> store \<Rightarrow> bool \<times> store" where
  "addAdmin telegramId st =
     (if telegramId \<in> set (admins (db st)) then (False, st)
      else (True, saveDb (run (\<lambda>t. t\<lparr>admins := admins t @ [telegramId]\<rparr>) st)))"

text \<open>\<open>removeAdmin\<close> deletes and saves whether or not a row matched. The flag it
  returns (\<open>db.getRowsModified() > 0\<close>, read after \<open>saveDb\<close>) is not modelled.\<close>

definition removeAdmin :: "int \<Rightarrow> store \<Rightarrow> store" where
  "removeAdmin telegramId st =
     saveDb (run (\<lambda>t. t\<lparr>admins := [r \<leftarrow> admins t. r \<noteq> telegramId]\<rparr>) st)"

definition getAllAdmins :: "store \<Rightarrow> int list" where
  "getAllAdmins st = admins (db st)"

subsection \<open>Agent management\<close>

text \<open>The rowid an AUTOINCREMENT insert chooses: one more than the largest rowid the
  table has ever held (the larger of the stored counter and the present maximum).\<close>

definition next_rowid :: "tables \<Rightarrow> int" where
  "next_rowid t = max (agents_seq t) (foldr (\<lambda>a m. max (row_id a) m) (agents t) 0) + 1"

definition insert_agent :: "int \<Rightarrow> string \<Rightarrow> tables \<Rightarrow> tables" where
  "insert_agent telegramId nm t =
     t\<lparr>agents := agents t @
          [\<lparr>row_id = next_rowid t, telegram_id = telegramId, name = nm, is_active = 0\<rparr>],
       agents_seq := next_rowid t\<rparr>"

text \<open>The INSERT throws when the UNIQUE column \<open>telegram_id\<close> already holds the
  value; the \<open>catch\<close> returns false without saving.\<close>

definition addAgent :: "int \<Rightarrow> string \<Rightarrow> store \<Rightarrow> bool \<times> store" where
  "addAgent telegramId nm st =
     (if telegramId \<in> set (map telegram_id (agents (db st))) then (False, st)
      else (True, saveDb (run (insert_agent telegramId nm) st)))"

definition delete_agent :: "int \<Rightarrow> tables \<Rightarrow> tables" where
  "delete_agent agentId t = t\<lparr>agents := [a \<leftarrow> agents t. row_id a \<noteq> agentId]\<rparr>"

definition delete_admin :: "int \<Rightarrow> tables \<Rightarrow> tables" where
  "delete_admin telegramId t = t\<lparr>admins := [r \<leftarrow> admins t. r \<noteq> telegramId]\<rparr>"

definition delete_session :: "int \<Rightarrow> tables \<Rightarrow> tables" where
  "delete_session telegramId t = t\<lparr>agent_sessions := (agent_sessions t)(telegramId := None)\<rparr>"

definition removeAgent :: "int \<Rightarrow> store \<Rightarrow> result \<times> store" where
  "removeAgent agentId st =
     (case [a \<leftarrow> agents (db st). row_id a = agentId] of
        [] \<Rightarrow> (NotFound, st)
      | a # _ \<Rightarrow>
          (let telegramId = telegram_id a;
               st1 = run (delete_agent agentId) st;
               st2 = run (delete_admin telegramId) st1;
               st3 = run (delete_session telegramId) st2
           in (Success ''Agent removed successfully'', saveDb st3)))"

definition clear_active :: "tables \<Rightarrow> tables" where
  "clear_active t = t\<lparr>agents := map (\<lambda>a. a\<lparr>is_active := 0\<rparr>) (agents t)\<rparr>"

definition set_active :: "int \<Rightarrow> int \<Rightarrow> tables \<Rightarrow> tables" where
  "set_active v agentId t =
     t\<lparr>agents := map (\<lambda>a. if row_id a = agentId then a\<lparr>is_active := v\<rparr> else a) (agents t)\<rparr>"

definition setActiveAgent :: "int \<Rightarrow> store \<Rightarrow> result \<times> store" where
  "setActiveAgent agentId st =
     (case [a \<leftarrow> agents (db st). row_id a = agentId] of
        [] \<Rightarrow> (NotFound, st)
      | a # _ \<Rightarrow>
          (let agentName = name a;
               st1 = run clear_active st;
               st2 = run (set_active 1 agentId) st1
           in (Success (''Agent '' @ [CHR 0x27] @ agentName @ [CHR 0x27] @ '' is now active''),
               saveDb st2)))"

definition deactivateAgent :: "int \<Rightarrow> store \<Rightarrow> result \<times> store" where
  "deactivateAgent agentId st =
     (case [a \<leftarrow> agents (db st). row_id a = agentId] of
        [] \<Rightarrow> (NotFound, st)
      | a # _ \<Rightarrow>
          (let agentName = name a;
               st1 = run (set_active 0 agentId) st
           in (Success (''Agent '' @ [CHR 0x27] @ agentName @ [CHR 0x27] @ '' is now offline''),
               saveDb st1)))"

text \<open>\<open>getActiveAgent\<close> returns the first row with \<open>is_active = 1\<close> (the source
  projects its id, telegram_id and name), or null.\<close>

definition getActiveAgent :: "store \<Rightarrow> agent option" where
  "getActiveAgent st =
     (case [a \<leftarrow> agents (db st). is_active a = 1] of [] \<Rightarrow> None | a # _ \<Rightarrow> Some a)"

definition getAllAgents :: "store \<Rightarrow> agent list" where
  "getAllAgents st = agents (db st)"

definition isAgent :: "int \<Rightarrow> store \<Rightarrow> bool" where
  "isAgent telegramId st = ([a \<leftarrow> agents (db st). telegram_id a = telegramId] \<noteq> [])"

definition getAgentByTelegramId :: "int \<Rightarrow> store \<Rightarrow> agent option" where
  "getAgentByTelegramId telegramId st =
     (case [a \<leftarrow> agents (db st). telegram_id a = telegramId] of [] \<Rightarrow> None | a # _ \<Rightarrow> Some a)"

subsection \<open>Session tracking and message mapping\<close>

definition setAgentSession :: "int \<Rightarrow> int \<Rightarrow> string \<Rightarrow> store \<Rightarrow> store" where
  "setAgentSession agentTelegramId uid uname st =
     (let st1 = run (delete_session agentTelegramId) st;
          st2 = run (\<lambda>t. t\<lparr>agent_sessions :=
                   (agent_sessions t)(agentTelegramId \<mapsto> \<lparr>userId = uid, userName = uname\<rparr>)\<rparr>) st1
      in saveDb st2)"

definition getAgentSession :: "int \<Rightarrow> store \<Rightarrow> target option" where
  "getAgentSession agentTelegramId st = agent_sessions (db st) agentTelegramId"

definition addMessageMapping :: "int \<Rightarrow> int \<Rightarrow> string \<Rightarrow> store \<Rightarrow> store" where
  "addMessageMapping agentMessageId uid uname st =
     saveDb (run (\<lambda>t. t\<lparr>message_mappings :=
        (message_mappings t)(agentMessageId \<mapsto> \<lparr>userId = uid, userName = uname\<rparr>)\<rparr>) st)"

definition getMessageMapping :: "int \<Rightarrow> store \<Rightarrow> target option" where
  "getMessageMapping agentMessageId st = message_mappings (db st) agentMessageId"

subsection \<open>Conversation logging\<close>

text \<open>\<open>logMessage\<close> reads the clock (\<open>new Date().toISOString()\<close>); the timestamp is a
  parameter of the model.\<close>

definition logMessage ::
  "string \<Rightarrow> int \<Rightarrow> string \<Rightarrow> int \<Rightarrow> string \<Rightarrow> direction \<Rightarrow> string \<Rightarrow> store \<Rightarrow> store" where
  "logMessage now uid uname aid aname dir msg st =
     saveDb (run (\<lambda>t. t\<lparr>conversation_logs := conversation_logs t @
        [\<lparr>timestamp = now, user_id = uid, user_name = uname, agent_id = aid,
          agent_name = aname, direction = dir, message = msg\<rparr>]\<rparr>) st)"

text \<open>\<open>ORDER BY timestamp DESC\<close> compares the TEXT column bytewise, which on strings is
  the lexicographic order. Rows with equal timestamps come out in the order of the
  table scan, which is insertion order: the rows are reversed, sorted ascending by a
  stable sort, and reversed again. \<open>LIMIT ?\<close> keeps the first \<open>limit\<close> rows; the
  callers pass the row counts 20 and 50. The filter is applied when \<open>userId\<close> is truthy:
  neither null nor 0.\<close>

definition order_by_timestamp_desc :: "log_entry list \<Rightarrow> log_entry list" where
  "order_by_timestamp_desc rows = rev (sort_key timestamp (rev rows))"

definition getLogs :: "int option \<Rightarrow> nat \<Rightarrow> store \<Rightarrow> log_entry list" where
  "getLogs uid limit st =
     (case uid of
        None \<Rightarrow> take limit (order_by_timestamp_desc (conversation_logs (db st)))
      | Some u \<Rightarrow>
          if u \<noteq> 0
          then take limit (order_by_timestamp_desc [e \<leftarrow> conversation_logs (db st). user_id e = u])
          else take limit (order_by_timestamp_desc (conversation_logs (db st))))"

section \<open>Message routing (server.js)\<close>

text \<open>
  What a handler receives from Telegraf: the sender (\<open>ctx.from\<close>) and the message
  (\<open>ctx.message\<close>). \<open>reply_to_message\<close> holds the \<open>message_id\<close> of the message replied
  to, when the message is a threaded reply.
\<close>

record ctx =
  from_id :: int
  from_first_name :: "string option"
  from_username :: "string option"
  message_text :: string
  reply_to_message :: "int option"
  voice_file_id :: string

text \<open>
  What the outside world does during one handler invocation: the clock read by
  \<open>logMessage\<close>; the outcome of the one \<open>bot.telegram.sendMessage\<close> or \<open>sendVoice\<close>
  call the handler makes (\<open>Inl\<close> the \<open>message\<close> of the error thrown, \<open>Inr\<close> the
  \<open>message_id\<close> of the message sent); the configured OpenAI key; and the outcome of
  the download-and-transcribe block of \<open>transcribeVoice\<close> (\<open>None\<close> when any step of it
  throws). Replies to the sender (\<open>ctx.reply\<close>) are recorded as emitted; their own
  delivery and the temporary audio file are not modelled.
\<close>

record env =
  clock :: string
  send_outcome :: "string + int"
  OPENAI_API_KEY :: string
  whisper_outcome :: "string option"

text \<open>The texts sent with \<open>ctx.reply\<close>, one constructor per literal of the source.\<close>

datatype notice =
    AdminNotRouted
  | NoUserToReplyTo
  | YouAreOffline
  | ReplySentTo string int
  | FailedToSend string
  | NoAgentsAvailable
  | MessageReceived
  | ErrorSendingMessage
  | AgentHasNotStartedBot
  | NoUserToReplyToVoice
  | VoiceReplySentTo string
  | FailedToSendVoiceReply string
  | AdminVoiceNotRouted
  | NoAgentsAvailableVoice
  | ProcessingVoice
  | VoiceMessageSent
  | ErrorSendingVoice

text \<open>The text handed to the transport: the agent's own words, or the header the
  handler builds around a user's message (user name, user handle, sender id, and the
  message text or the transcription).\<close>

datatype body =
    Plain string
  | ForwardText string string int string
  | ForwardHeader string string int string

text \<open>The calls a handler makes on the platform, in order. \<open>SendMessage\<close> and
  \<open>SendVoice\<close> are the transport calls to the counterparty (\<open>bot.telegram\<close>),
  recorded whether or not they succeed; \<open>Reply\<close> answers the sender.\<close>

datatype action =
    Reply notice
  | SendMessage int body
  | SendVoice int string "body option"

fun startsWith :: "string \<Rightarrow> string \<Rightarrow> bool" where
  "startsWith s [] = True"
| "startsWith [] (p # ps) = False"
| "startsWith (c # cs) (p # ps) = (c = p \<and> startsWith cs ps)"

fun includes_str :: "string \<Rightarrow> string \<Rightarrow> bool" where
  "includes_str [] sub = (sub = [])"
| "includes_str (c # cs) sub = (startsWith (c # cs) sub \<or> includes_str cs sub)"

text \<open>JavaScript's \<open>!targetUserId\<close> on a value that is null or a number.\<close>

fun falsy :: "int option \<Rightarrow> bool" where
  "falsy None = True"
| "falsy (Some n) = (n = 0)"

subsection \<open>Voice helper\<close>

definition transcribeVoice :: "env \<Rightarrow> string" where
  "transcribeVoice e =
     (if OPENAI_API_KEY e = ''YOUR_OPENAI_API_KEY''
      then ''[Voice message - please configure OpenAI API key to transcribe]''
      else (case whisper_outcome e of
              Some transcript \<Rightarrow> transcript
            | None \<Rightarrow> ''[Error transcribing voice message]''))"

subsection \<open>Reply target of an agent message\<close>

text \<open>The two-tier lookup both handlers run (server.js 1001-1019 and 1092-1111): the
  variables \<open>targetUserId\<close> (initially null) and \<open>targetUserName\<close> (initially "User")
  after the mapping lookup and the session fallback.\<close>

definition after_mapping_lookup :: "ctx \<Rightarrow> store \<Rightarrow> int option \<times> string" where
  "after_mapping_lookup c st =
     (case reply_to_message c of
        None \<Rightarrow> (None, ''User'')
      | Some mid \<Rightarrow>
          (case getMessageMapping mid st of
             None \<Rightarrow> (None, ''User'')
           | Some mapping \<Rightarrow> (Some (userId mapping), userName mapping)))"

definition resolve_target :: "ctx \<Rightarrow> store \<Rightarrow> int option \<times> string" where
  "resolve_target c st =
     (let (targetUserId, targetUserName) = after_mapping_lookup c st
      in if falsy targetUserId
         then (case getAgentSession (from_id c) st of
                 None \<Rightarrow> (targetUserId, targetUserName)
               | Some session \<Rightarrow> (Some (userId session), userName session))
         else (targetUserId, targetUserName))"

subsection \<open>The text handler\<close>

definition agent_text :: "env \<Rightarrow> ctx \<Rightarrow> store \<Rightarrow> action list \<times> store" where
  "agent_text e c st =
     (case resolve_target c st of
        (None, _) \<Rightarrow> ([Reply NoUserToReplyTo], st)
      | (Some targetUserId, targetUserName) \<Rightarrow>
          if targetUserId = 0 then ([Reply NoUserToReplyTo], st)
          else
            (case getAgentByTelegramId (from_id c) st of
               None \<Rightarrow> ([Reply YouAreOffline], st)
             | Some a \<Rightarrow>
                 if is_active a = 0 then ([Reply YouAreOffline], st)
                 else
                   (case send_outcome e of
                      Inr _ \<Rightarrow>
                        ([SendMessage targetUserId (Plain (message_text c)),
                          Reply (ReplySentTo targetUserName targetUserId)],
                         logMessage (clock e) targetUserId targetUserName (row_id a) (name a)
                           agent_to_user (message_text c) st)
                    | Inl err \<Rightarrow>
                        ([SendMessage targetUserId (Plain (message_text c)),
                          Reply (FailedToSend err)], st))))"

definition userName_of :: "ctx \<Rightarrow> string" where
  "userName_of c =
     (case from_first_name c of None \<Rightarrow> ''Unknown'' | Some n \<Rightarrow> if n = [] then ''Unknown'' else n)"

definition userUsername_of :: "ctx \<Rightarrow> string" where
  "userUsername_of c =
     (case from_username c of None \<Rightarrow> [] | Some u \<Rightarrow> if u = [] then [] else ''@'' @ u)"

definition userDisplayName_of :: "ctx \<Rightarrow> string" where
  "userDisplayName_of c =
     (if userUsername_of c \<noteq> [] then userName_of c @ '' ('' @ userUsername_of c @ '')''
      else userName_of c)"

definition user_text :: "env \<Rightarrow> ctx \<Rightarrow> store \<Rightarrow> action list \<times> store" where
  "user_text e c st =
     (case getActiveAgent st of
        None \<Rightarrow> ([Reply NoAgentsAvailable], st)
      | Some activeAgent \<Rightarrow>
          (let senderId = from_id c;
               userDisplayName = userDisplayName_of c;
               forwardText = ForwardText (userName_of c) (userUsername_of c) senderId (message_text c)
           in case send_outcome e of
                Inr message_id \<Rightarrow>
                  (let st1 = addMessageMapping message_id senderId userDisplayName st;
                       st2 = setAgentSession (telegram_id activeAgent) senderId userDisplayName st1;
                       st3 = logMessage (clock e) senderId userDisplayName (row_id activeAgent)
                               (name activeAgent) user_to_agent (message_text c) st2
                   in ([SendMessage (telegram_id activeAgent) forwardText, Reply MessageReceived], st3))
              | Inl err \<Rightarrow>
                  ([SendMessage (telegram_id activeAgent) forwardText,
                    Reply (if includes_str err ''chat not found'' \<or> includes_str err ''bot was blocked''
                           then AgentHasNotStartedBot else ErrorSendingMessage)], st)))"

definition on_text :: "env \<Rightarrow> ctx \<Rightarrow> store \<Rightarrow> action list \<times> store" where
  "on_text e c st =
     (if startsWith (message_text c) ''/'' then ([], st)
      else if isAdmin (from_id c) st then ([Reply AdminNotRouted], st)
      else if isAgent (from_id c) st then agent_text e c st
      else user_text e c st)"

subsection \<open>The voice handler\<close>

definition agent_voice :: "env \<Rightarrow> ctx \<Rightarrow> store \<Rightarrow> action list \<times> store" where
  "agent_voice e c st =
     (case resolve_target c st of
        (None, _) \<Rightarrow> ([Reply NoUserToReplyToVoice], st)
      | (Some targetUserId, targetUserName) \<Rightarrow>
          if targetUserId = 0 then ([Reply NoUserToReplyToVoice], st)
          else
            (case getAgentByTelegramId (from_id c) st of
               None \<Rightarrow> ([Reply YouAreOffline], st)
             | Some a \<Rightarrow>
                 if is_active a = 0 then ([Reply YouAreOffline], st)
                 else
                   (case send_outcome e of
                      Inr _ \<Rightarrow>
                        ([SendVoice targetUserId (voice_file_id c) None,
                          Reply (VoiceReplySentTo targetUserName)],
                         logMessage (clock e) targetUserId targetUserName (row_id a) (name a)
                           agent_to_user ''[Voice Message]'' st)
                    | Inl err \<Rightarrow>
                        ([SendVoice targetUserId (voice_file_id c) None,
                          Reply (FailedToSendVoiceReply err)], st))))"

definition user_voice :: "env \<Rightarrow> ctx \<Rightarrow> store \<Rightarrow> action list \<times> store" where
  "user_voice e c st =
     (case getActiveAgent st of
        None \<Rightarrow> ([Reply NoAgentsAvailableVoice], st)
      | Some activeAgent \<Rightarrow>
          (let senderId = from_id c;
               userDisplayName = userDisplayName_of c;
               transcription = transcribeVoice e;
               forwardHeader = ForwardHeader (userName_of c) (userUsername_of c) senderId transcription
           in case send_outcome e of
                Inr message_id \<Rightarrow>
                  (let st1 = addMessageMapping message_id senderId userDisplayName st;
                       st2 = setAgentSession (telegram_id activeAgent) senderId userDisplayName st1;
                       st3 = logMessage (clock e) senderId userDisplayName (row_id activeAgent)
                               (name activeAgent) user_to_agent (''[Voice] '' @ transcription) st2
                   in ([Reply ProcessingVoice,
                        SendVoice (telegram_id activeAgent) (voice_file_id c) (Some forwardHeader),
                        Reply VoiceMessageSent], st3))
              | Inl err \<Rightarrow>
                  ([Reply ProcessingVoice,
                    SendVoice (telegram_id activeAgent) (voice_file_id c) (Some forwardHeader),
                    Reply ErrorSendingVoice], st)))"

definition on_voice :: "env \<Rightarrow> ctx \<Rightarrow> store \<Rightarrow> action list \<times> store" where
  "on_voice e c st =
     (if isAgent (from_id c) st then agent_voice e c st
      else if isAdmin (from_id c) st then ([Reply AdminVoiceNotRouted], st)
      else user_voice e c st)"

section \<open>Vocabulary of the properties\<close>

text \<open>The message is a threaded reply to a message for which a mapping is stored.\<close>

definition threads_to_mapped :: "ctx \<Rightarrow> store \<Rightarrow> bool" where
  "threads_to_mapped c st =
     (case reply_to_message c of None \<Rightarrow> False | Some mid \<Rightarrow> getMessageMapping mid st \<noteq> None)"

text \<open>Between \<open>st\<close> and \<open>st'\<close> the tables differ by one appended log entry and by
  nothing else.\<close>

definition only_log_appended :: "store \<Rightarrow> store \<Rightarrow> log_entry \<Rightarrow> bool" where
  "only_log_appended st st' entry =
     (message_mappings (db st') = message_mappings (db st) \<and>
      agent_sessions (db st') = agent_sessions (db st) \<and>
      agents (db st') = agents (db st) \<and>
      agents_seq (db st') = agents_seq (db st) \<and>
      admins (db st') = admins (db st) \<and>
      conversation_logs (db st') = conversation_logs (db st) @ [entry])"

text \<open>The key constraints of the schema: \<open>agents.id\<close> PRIMARY KEY, \<open>agents.telegram_id\<close>
  UNIQUE, \<open>admins.telegram_id\<close> PRIMARY KEY. They hold of every database SQLite loads.\<close>

definition wf_tables :: "tables \<Rightarrow> bool" where
  "wf_tables t =
     (distinct (map row_id (agents t)) \<and> distinct (map telegram_id (agents t)) \<and>
      distinct (admins t))"

text \<open>I1: at most one agent row has a truthy \<open>is_active\<close>.\<close>

definition at_most_one_active :: "tables \<Rightarrow> bool" where
  "at_most_one_active t = (length [a \<leftarrow> agents t. is_active a \<noteq> 0] \<le> 1)"

text \<open>The operations on the store: the mutating exports of database.js and the two
  message handlers.\<close>

datatype operation =
    AddAdmin int
  | RemoveAdmin int
  | AddAgent int string
  | RemoveAgent int
  | SetActiveAgent int
  | DeactivateAgent int
  | SetAgentSession int int string
  | AddMessageMapping int int string
  | LogMessage string int string int string direction string
  | OnText env ctx
  | OnVoice env ctx

fun apply_op :: "operation \<Rightarrow> store \<Rightarrow> store" where
  "apply_op (AddAdmin telegramId) st = snd (addAdmin telegramId st)"
| "apply_op (RemoveAdmin telegramId) st = removeAdmin telegramId st"
| "apply_op (AddAgent telegramId nm) st = snd (addAgent telegramId nm st)"
| "apply_op (RemoveAgent agentId) st = snd (removeAgent agentId st)"
| "apply_op (SetActiveAgent agentId) st = snd (setActiveAgent agentId st)"
| "apply_op (DeactivateAgent agentId) st = snd (deactivateAgent agentId st)"
| "apply_op (SetAgentSession agentTelegramId uid uname) st = setAgentSession agentTelegramId uid uname st"
| "apply_op (AddMessageMapping agentMessageId uid uname) st = addMessageMapping agentMessageId uid uname st"
| "apply_op (LogMessage now uid uname aid aname dir msg) st = logMessage now uid uname aid aname dir msg st"
| "apply_op (OnText e c) st = snd (on_text e c st)"
| "apply_op (OnVoice e c) st = snd (on_voice e c st)"

text \<open>The tables without the agent row \<open>agentId\<close>, without the admin entry of
  \<open>telegramId\<close> and without the session of \<open>telegramId\<close>.\<close>

definition without_agent :: "int \<Rightarrow> int \<Rightarrow> tables \<Rightarrow> tables" where
  "without_agent agentId telegramId t =
     t\<lparr>agents := [a \<leftarrow> agents t. row_id a \<noteq> agentId],
       admins := [x \<leftarrow> admins t. x \<noteq> telegramId],
       agent_sessions := (agent_sessions t)(telegramId := None)\<rparr>"

text \<open>No stored mapping holds the user id 0.\<close>

definition mappings_nonzero :: "tables \<Rightarrow> bool" where
  "mappings_nonzero t = (\<forall>mid m. message_mappings t mid = Some m \<longrightarrow> userId m \<noteq> 0)"

text \<open>What reaches the store from outside: a text or voice message of a Telegram user,
  whose id is never 0, or a command or panel request, which calls one of the admin and
  agent functions. \<open>setAgentSession\<close>, \<open>addMessageMapping\<close> and \<open>logMessage\<close> are called by
  the two message handlers only (server.js 1033, 1068-1073, 1126, 1166-1169).\<close>

fun platform_event :: "operation \<Rightarrow> bool" where
  "platform_event (OnText e c) = (from_id c \<noteq> 0)"
| "platform_event (OnVoice e c) = (from_id c \<noteq> 0)"
| "platform_event (SetAgentSession agentTelegramId uid uname) = False"
| "platform_event (AddMessageMapping agentMessageId uid uname) = False"
| "platform_event (LogMessage now uid uname aid aname dir msg) = False"
| "platform_event (AddAdmin telegramId) = True"
| "platform_event (RemoveAdmin telegramId) = True"
| "platform_event (AddAgent telegramId nm) = True"
| "platform_event (RemoveAgent agentId) = True"
| "platform_event (SetActiveAgent agentId) = True"
| "platform_event (DeactivateAgent agentId) = True"

section \<open>Example data\<close>

text \<open>Three agents (Alice active, Bob and Cleo offline), one admin, sessions for Alice
  and Bob naming the user Dana, and one mapping from forwarded message 100 to the user
  Carl.\<close>

definition ex_tables :: tables where
  "ex_tables =
     \<lparr>agents = [\<lparr>row_id = 1, telegram_id = 7, name = ''Alice'', is_active = 1\<rparr>,
                \<lparr>row_id = 2, telegram_id = 8, name = ''Bob'', is_active = 0\<rparr>,
                \<lparr>row_id = 3, telegram_id = 9, name = ''Cleo'', is_active = 0\<rparr>],
      agents_seq = 3,
      admins = [99],
      conversation_logs = [],
      agent_sessions = [7 \<mapsto> \<lparr>userId = 42, userName = ''Dana''\<rparr>,
                        8 \<mapsto> \<lparr>userId = 42, userName = ''Dana''\<rparr>],
      message_mappings = [100 \<mapsto> \<lparr>userId = 41, userName = ''Carl''\<rparr>]\<rparr>"

definition ex_store :: store where
  "ex_store = \<lparr>db = ex_tables, saved = []\<rparr>"

definition ex_alice_threaded :: ctx where
  "ex_alice_threaded =
     \<lparr>from_id = 7, from_first_name = Some ''Alice'', from_username = None,
      message_text = ''hello Carl'', reply_to_message = Some 100, voice_file_id = ''voice-a''\<rparr>"

definition ex_bob_plain :: ctx where
  "ex_bob_plain =
     \<lparr>from_id = 8, from_first_name = Some ''Bob'', from_username = None,
      message_text = ''hello'', reply_to_message = None, voice_file_id = ''voice-b''\<rparr>"

definition ex_cleo_unmapped :: ctx where
  "ex_cleo_unmapped =
     \<lparr>from_id = 9, from_first_name = Some ''Cleo'', from_username = None,
      message_text = ''anyone?'', reply_to_message = Some 500, voice_file_id = ''voice-c''\<rparr>"

definition ex_carl :: ctx where
  "ex_carl =
     \<lparr>from_id = 41, from_first_name = Some ''Carl'', from_username = Some ''carl41'',
      message_text = ''help'', reply_to_message = None, voice_file_id = ''voice-u''\<rparr>"

definition ex_env_ok :: env where
  "ex_env_ok =
     \<lparr>clock = ''2024-01-01T10:00:00.000Z'', send_outcome = Inr 101,
      OPENAI_API_KEY = ''sk-test'', whisper_outcome = None\<rparr>"

definition ex_env_fail :: env where
  "ex_env_fail =
     \<lparr>clock = ''2024-01-01T10:00:00.000Z'', send_outcome = Inl ''403: bot was blocked by the user'',
      OPENAI_API_KEY = ''sk-test'', whisper_outcome = None\<rparr>"

text \<open>A second user, and the store after Carl and then Eve have each sent a text that was
  forwarded to Alice as messages 101 and 102.\<close>

definition ex_eve :: ctx where
  "ex_eve =
     \<lparr>from_id = 43, from_first_name = Some ''Eve'', from_username = None,
      message_text = ''me too'', reply_to_message = None, voice_file_id = ''voice-e''\<rparr>"

definition ex_env_ok2 :: env where
  "ex_env_ok2 =
     \<lparr>clock = ''2024-01-01T10:05:00.000Z'', send_outcome = Inr 102,
      OPENAI_API_KEY = ''sk-test'', whisper_outcome = Some ''hello''\<rparr>"

definition ex_two_users :: "operation list" where
  "ex_two_users = [OnText ex_env_ok ex_carl, OnText ex_env_ok2 ex_eve]"

definition ex_after_two_users :: store where
  "ex_after_two_users = snd (on_text ex_env_ok2 ex_eve (snd (on_text ex_env_ok ex_carl ex_store)))"

definition ex_alice_reply_101 :: ctx where
  "ex_alice_reply_101 =
     \<lparr>from_id = 7, from_first_name = Some ''Alice'', from_username = None,
      message_text = ''hi Carl'', reply_to_message = Some 101, voice_file_id = ''voice-a2''\<rparr>"

text \<open>A store in which Alice's identity 7 is an admin as well as an agent.\<close>

definition ex_admin_agent_store :: store where
  "ex_admin_agent_store = \<lparr>db = ex_tables\<lparr>admins := [99, 7]\<rparr>, saved = []\<rparr>"

text \<open>A store with three log entries, two of user 41 and one of user 43, inserted out of
  timestamp order.\<close>

definition ex_log_store :: store where
  "ex_log_store =
     \<lparr>db = ex_tables\<lparr>conversation_logs :=
        [\<lparr>timestamp = ''2024-01-01T09:10:00.000Z'', user_id = 41, user_name = ''Carl'',
          agent_id = 1, agent_name = ''Alice'', direction = user_to_agent, message = ''second''\<rparr>,
         \<lparr>timestamp = ''2024-01-01T09:05:00.000Z'', user_id = 43, user_name = ''Eve'',
          agent_id = 1, agent_name = ''Alice'', direction = user_to_agent, message = ''other''\<rparr>,
         \<lparr>timestamp = ''2024-01-01T09:00:00.000Z'', user_id = 41, user_name = ''Carl'',
          agent_id = 1, agent_name = ''Alice'', direction = user_to_agent, message = ''first''\<rparr>,
         \<lparr>timestamp = ''2024-01-01T09:20:00.000Z'', user_id = 41, user_name = ''Carl'',
          agent_id = 1, agent_name = ''Alice'', direction = agent_to_user, message = ''third''\<rparr>]\<rparr>,
      saved = []\<rparr>"

text \<open>Three log rows of one timestamp, in insertion order.\<close>

definition ex_same_time_rows :: "log_entry list" where
  "ex_same_time_rows =
     [\<lparr>timestamp = ''2024-01-01T09:00:00.000Z'', user_id = 41, user_name = ''Carl'',
       agent_id = 1, agent_name = ''Alice'', direction = user_to_agent, message = ''a1''\<rparr>,
      \<lparr>timestamp = ''2024-01-01T09:00:00.000Z'', user_id = 41, user_name = ''Carl'',
       agent_id = 1, agent_name = ''Alice'', direction = agent_to_user, message = ''a2''\<rparr>,
      \<lparr>timestamp = ''2024-01-01T09:00:00.000Z'', user_id = 41, user_name = ''Carl'',
       agent_id = 1, agent_name = ''Alice'', direction = user_to_agent, message = ''a3''\<rparr>]"

text \<open>A run of operations on the example store.\<close>

definition ex_ops :: "operation list" where
  "ex_ops =
     [AddAgent 10 ''Dan'', SetActiveAgent 2, OnText ex_env_ok ex_carl, RemoveAgent 1,
      DeactivateAgent 2, SetActiveAgent 4, AddAdmin 7]"

section \<open>Unfolding sets\<close>

lemmas ex_defs = ex_tables_def ex_store_def ex_alice_threaded_def ex_bob_plain_def
  ex_cleo_unmapped_def ex_carl_def ex_env_ok_def ex_env_fail_def

lemmas ex_defs2 = ex_eve_def ex_env_ok2_def ex_after_two_users_def ex_alice_reply_101_def
  ex_admin_agent_store_def ex_two_users_def

lemmas query_defs = isAdmin_def isAgent_def getAgentByTelegramId_def getActiveAgent_def
  getAgentSession_def getMessageMapping_def threads_to_mapped_def resolve_target_def
  after_mapping_lookup_def

lemmas write_defs = logMessage_def addMessageMapping_def setAgentSession_def delete_session_def
  saveDb_def run_def

lemmas handler_defs = on_text_def on_voice_def agent_text_def agent_voice_def user_text_def
  user_voice_def userName_of_def userUsername_of_def userDisplayName_of_def transcribeVoice_def

section \<open>Agent replies\<close>

lemma resolve_target_none:
  assumes "\<not> threads_to_mapped c st" and "getAgentSession (from_id c) st = None"
  shows "resolve_target c st = (None, ''User'')"
  using assms
  by (auto simp: resolve_target_def after_mapping_lookup_def threads_to_mapped_def
      split: option.splits)

text \<open>
  C7. An agent message that is not a threaded reply to a mapped message, from an agent
  for whom no session is stored, is answered with the "no user to reply to" notice
  alone: the handler makes no transport call and leaves the store, and so the
  conversation log, as it was. This holds for the text handler (where the agent branch
  is reached by a non-command text of a sender who is not an admin) and for the voice
  handler.
\<close>

theorem no_reply_target:
  assumes "isAgent (from_id c) st"
    and "\<not> threads_to_mapped c st"
    and "getAgentSession (from_id c) st = None"
  shows "(\<not> startsWith (message_text c) ''/'' \<and> \<not> isAdmin (from_id c) st \<longrightarrow>
            on_text e c st = ([Reply NoUserToReplyTo], st))
       \<and> on_voice e c st = ([Reply NoUserToReplyToVoice], st)"
  using assms resolve_target_none[OF assms(2,3)]
  by (simp add: on_text_def on_voice_def agent_text_def agent_voice_def)

theorem no_reply_target_witness:
  "isAgent (from_id ex_cleo_unmapped) ex_store
   \<and> \<not> threads_to_mapped ex_cleo_unmapped ex_store
   \<and> getAgentSession (from_id ex_cleo_unmapped) ex_store = None
   \<and> \<not> startsWith (message_text ex_cleo_unmapped) ''/''
   \<and> \<not> isAdmin (from_id ex_cleo_unmapped) ex_store
   \<and> on_text ex_env_ok ex_cleo_unmapped ex_store = ([Reply NoUserToReplyTo], ex_store)
   \<and> on_voice ex_env_ok ex_cleo_unmapped ex_store = ([Reply NoUserToReplyToVoice], ex_store)"
proof -
  have h1: "isAgent (from_id ex_cleo_unmapped) ex_store"
    by (simp add: ex_defs query_defs)
  have h2: "\<not> threads_to_mapped ex_cleo_unmapped ex_store"
    by (simp add: ex_defs query_defs)
  have h3: "getAgentSession (from_id ex_cleo_unmapped) ex_store = None"
    by (simp add: ex_defs query_defs)
  have h4: "\<not> startsWith (message_text ex_cleo_unmapped) ''/''"
    by (simp add: ex_defs)
  have h5: "\<not> isAdmin (from_id ex_cleo_unmapped) ex_store"
    by (simp add: ex_defs query_defs)
  from no_reply_target[OF h1 h2 h3, of ex_env_ok] h1 h2 h3 h4 h5 show ?thesis
    by simp
qed

text \<open>
  C6. An agent message whose target resolves (through the mapping or the session) while
  the row of the replying agent has \<open>is_active = 0\<close> is answered with the "you are
  offline" notice alone: no transport call is made and the store, and so the
  conversation log, is unchanged, in the text handler and in the voice handler.
\<close>

theorem agent_offline:
  assumes "isAgent (from_id c) st"
    and "resolve_target c st = (Some u, n)" and "u \<noteq> 0"
    and "getAgentByTelegramId (from_id c) st = Some a" and "is_active a = 0"
  shows "(\<not> startsWith (message_text c) ''/'' \<and> \<not> isAdmin (from_id c) st \<longrightarrow>
            on_text e c st = ([Reply YouAreOffline], st))
       \<and> on_voice e c st = ([Reply YouAreOffline], st)"
  using assms
  by (simp add: on_text_def on_voice_def agent_text_def agent_voice_def)

theorem agent_offline_witness:
  "isAgent (from_id ex_bob_plain) ex_store
   \<and> resolve_target ex_bob_plain ex_store = (Some 42, ''Dana'')
   \<and> getAgentByTelegramId (from_id ex_bob_plain) ex_store
       = Some \<lparr>row_id = 2, telegram_id = 8, name = ''Bob'', is_active = 0\<rparr>
   \<and> \<not> startsWith (message_text ex_bob_plain) ''/''
   \<and> \<not> isAdmin (from_id ex_bob_plain) ex_store
   \<and> on_text ex_env_ok ex_bob_plain ex_store = ([Reply YouAreOffline], ex_store)
   \<and> on_voice ex_env_ok ex_bob_plain ex_store = ([Reply YouAreOffline], ex_store)"
proof -
  have h1: "isAgent (from_id ex_bob_plain) ex_store"
    by (simp add: ex_defs query_defs)
  have h2: "resolve_target ex_bob_plain ex_store = (Some 42, ''Dana'')"
    by (simp add: ex_defs query_defs)
  have h3: "getAgentByTelegramId (from_id ex_bob_plain) ex_store
       = Some \<lparr>row_id = 2, telegram_id = 8, name = ''Bob'', is_active = 0\<rparr>"
    by (simp add: ex_defs query_defs)
  have h4: "\<not> startsWith (message_text ex_bob_plain) ''/''"
    by (simp add: ex_defs)
  have h5: "\<not> isAdmin (from_id ex_bob_plain) ex_store"
    by (simp add: ex_defs query_defs)
  from agent_offline[OF h1 h2 _ h3, of ex_env_ok] h1 h2 h3 h4 h5 show ?thesis
    by simp
qed

lemma logMessage_only_log_appended:
  "only_log_appended st (logMessage now uid uname aid aname dir msg st)
     \<lparr>timestamp = now, user_id = uid, user_name = uname, agent_id = aid,
      agent_name = aname, direction = dir, message = msg\<rparr>"
  by (simp add: only_log_appended_def logMessage_def saveDb_def run_def)

lemma agent_text_keeps_correlation:
  "agent_sessions (db (snd (agent_text e c st))) = agent_sessions (db st) \<and>
   message_mappings (db (snd (agent_text e c st))) = message_mappings (db st)"
  by (simp add: agent_text_def logMessage_def saveDb_def run_def
      split: prod.splits option.splits sum.splits)

lemma agent_voice_keeps_correlation:
  "agent_sessions (db (snd (agent_voice e c st))) = agent_sessions (db st) \<and>
   message_mappings (db (snd (agent_voice e c st))) = message_mappings (db st)"
  by (simp add: agent_voice_def logMessage_def saveDb_def run_def
      split: prod.splits option.splits sum.splits)

text \<open>
  C10. When an agent message is delivered (the agent branch is taken, the target
  resolves, the agent's row is active and the transport send succeeds), the handler
  sends to the resolved user, confirms to the agent, and changes the tables by one
  appended agent-to-user log entry only: the mappings, every session, the agents and the
  admins are as before. Moreover a handler invocation that changes the session table at
  all was sent by an identity that is neither an agent nor an admin, so an agent's own
  messages never rebind a session.
\<close>

theorem agent_reply_only_logs:
  assumes "isAgent (from_id c) st"
    and "resolve_target c st = (Some u, n)" and "u \<noteq> 0"
    and "getAgentByTelegramId (from_id c) st = Some a" and "is_active a \<noteq> 0"
    and "send_outcome e = Inr mid"
  shows "(\<not> startsWith (message_text c) ''/'' \<and> \<not> isAdmin (from_id c) st \<longrightarrow>
           fst (on_text e c st)
             = [SendMessage u (Plain (message_text c)), Reply (ReplySentTo n u)] \<and>
           only_log_appended st (snd (on_text e c st))
             \<lparr>timestamp = clock e, user_id = u, user_name = n, agent_id = row_id a,
              agent_name = name a, direction = agent_to_user, message = message_text c\<rparr>)
       \<and> fst (on_voice e c st)
             = [SendVoice u (voice_file_id c) None, Reply (VoiceReplySentTo n)]
       \<and> only_log_appended st (snd (on_voice e c st))
             \<lparr>timestamp = clock e, user_id = u, user_name = n, agent_id = row_id a,
              agent_name = name a, direction = agent_to_user, message = ''[Voice Message]''\<rparr>
       \<and> (agent_sessions (db (snd (on_text e' c' st))) \<noteq> agent_sessions (db st) \<longrightarrow>
            \<not> isAgent (from_id c') st \<and> \<not> isAdmin (from_id c') st)
       \<and> (agent_sessions (db (snd (on_voice e' c' st))) \<noteq> agent_sessions (db st) \<longrightarrow>
            \<not> isAgent (from_id c') st \<and> \<not> isAdmin (from_id c') st)"
proof -
  have t: "\<not> startsWith (message_text c) ''/'' \<Longrightarrow> \<not> isAdmin (from_id c) st \<Longrightarrow>
      on_text e c st = ([SendMessage u (Plain (message_text c)), Reply (ReplySentTo n u)],
         logMessage (clock e) u n (row_id a) (name a) agent_to_user (message_text c) st)"
    using assms by (simp add: on_text_def agent_text_def)
  have v: "on_voice e c st = ([SendVoice u (voice_file_id c) None, Reply (VoiceReplySentTo n)],
         logMessage (clock e) u n (row_id a) (name a) agent_to_user ''[Voice Message]'' st)"
    using assms by (simp add: on_voice_def agent_voice_def)
  have rt: "agent_sessions (db (snd (on_text e' c' st))) \<noteq> agent_sessions (db st) \<longrightarrow>
            \<not> isAgent (from_id c') st \<and> \<not> isAdmin (from_id c') st"
    using agent_text_keeps_correlation[of e' c' st] by (auto simp: on_text_def split: if_splits)
  have rv: "agent_sessions (db (snd (on_voice e' c' st))) \<noteq> agent_sessions (db st) \<longrightarrow>
            \<not> isAgent (from_id c') st \<and> \<not> isAdmin (from_id c') st"
    using agent_voice_keeps_correlation[of e' c' st] by (auto simp: on_voice_def split: if_splits)
  show ?thesis using t v rt rv logMessage_only_log_appended by simp
qed

theorem agent_reply_only_logs_witness:
  "isAgent (from_id ex_alice_threaded) ex_store
   \<and> resolve_target ex_alice_threaded ex_store = (Some 41, ''Carl'')
   \<and> getAgentByTelegramId (from_id ex_alice_threaded) ex_store
       = Some \<lparr>row_id = 1, telegram_id = 7, name = ''Alice'', is_active = 1\<rparr>
   \<and> send_outcome ex_env_ok = Inr 101
   \<and> \<not> startsWith (message_text ex_alice_threaded) ''/''
   \<and> \<not> isAdmin (from_id ex_alice_threaded) ex_store
   \<and> fst (on_text ex_env_ok ex_alice_threaded ex_store)
       = [SendMessage 41 (Plain ''hello Carl''), Reply (ReplySentTo ''Carl'' 41)]
   \<and> only_log_appended ex_store (snd (on_text ex_env_ok ex_alice_threaded ex_store))
       \<lparr>timestamp = ''2024-01-01T10:00:00.000Z'', user_id = 41, user_name = ''Carl'',
        agent_id = 1, agent_name = ''Alice'', direction = agent_to_user,
        message = ''hello Carl''\<rparr>
   \<and> fst (on_voice ex_env_ok ex_alice_threaded ex_store)
       = [SendVoice 41 ''voice-a'' None, Reply (VoiceReplySentTo ''Carl'')]
   \<and> only_log_appended ex_store (snd (on_voice ex_env_ok ex_alice_threaded ex_store))
       \<lparr>timestamp = ''2024-01-01T10:00:00.000Z'', user_id = 41, user_name = ''Carl'',
        agent_id = 1, agent_name = ''Alice'', direction = agent_to_user,
        message = ''[Voice Message]''\<rparr>
   \<and> agent_sessions (db (snd (on_text ex_env_ok ex_carl ex_store))) \<noteq> agent_sessions (db ex_store)
   \<and> agent_sessions (db (snd (on_voice ex_env_ok ex_carl ex_store))) \<noteq> agent_sessions (db ex_store)
   \<and> \<not> isAgent (from_id ex_carl) ex_store
   \<and> \<not> isAdmin (from_id ex_carl) ex_store"
proof -
  have h1: "isAgent (from_id ex_alice_threaded) ex_store"
    by (simp add: ex_defs query_defs)
  have h2: "resolve_target ex_alice_threaded ex_store = (Some 41, ''Carl'')"
    by (simp add: ex_defs query_defs)
  have h3: "getAgentByTelegramId (from_id ex_alice_threaded) ex_store
       = Some \<lparr>row_id = 1, telegram_id = 7, name = ''Alice'', is_active = 1\<rparr>"
    by (simp add: ex_defs query_defs)
  have h4: "send_outcome ex_env_ok = Inr 101"
    by (simp add: ex_defs)
  have h5: "\<not> startsWith (message_text ex_alice_threaded) ''/''"
    by (simp add: ex_defs)
  have h6: "\<not> isAdmin (from_id ex_alice_threaded) ex_store"
    by (simp add: ex_defs query_defs)
  have vals: "message_text ex_alice_threaded = ''hello Carl''"
    "voice_file_id ex_alice_threaded = ''voice-a''"
    "clock ex_env_ok = ''2024-01-01T10:00:00.000Z''"
    by (simp_all add: ex_defs)
  have s7: "agent_sessions (db ex_store) 7 = Some \<lparr>userId = 42, userName = ''Dana''\<rparr>"
    by (simp add: ex_defs)
  have t7: "agent_sessions (db (snd (on_text ex_env_ok ex_carl ex_store))) 7
      = Some \<lparr>userId = 41, userName = ''Carl (@carl41)''\<rparr>"
    by (simp add: ex_defs query_defs handler_defs write_defs Let_def)
  have v7: "agent_sessions (db (snd (on_voice ex_env_ok ex_carl ex_store))) 7
      = Some \<lparr>userId = 41, userName = ''Carl (@carl41)''\<rparr>"
    by (simp add: ex_defs query_defs handler_defs write_defs Let_def)
  have t: "agent_sessions (db (snd (on_text ex_env_ok ex_carl ex_store))) \<noteq> agent_sessions (db ex_store)"
  proof
    assume "agent_sessions (db (snd (on_text ex_env_ok ex_carl ex_store))) = agent_sessions (db ex_store)"
    then have "agent_sessions (db (snd (on_text ex_env_ok ex_carl ex_store))) 7 = agent_sessions (db ex_store) 7"
      by simp
    with s7 t7 show False by simp
  qed
  have v: "agent_sessions (db (snd (on_voice ex_env_ok ex_carl ex_store))) \<noteq> agent_sessions (db ex_store)"
  proof
    assume "agent_sessions (db (snd (on_voice ex_env_ok ex_carl ex_store))) = agent_sessions (db ex_store)"
    then have "agent_sessions (db (snd (on_voice ex_env_ok ex_carl ex_store))) 7 = agent_sessions (db ex_store) 7"
      by simp
    with s7 v7 show False by simp
  qed
  from agent_reply_only_logs[where e' = ex_env_ok and c' = ex_carl, OF h1 h2 _ h3 _ h4]
  have "(\<not> startsWith (message_text ex_alice_threaded) ''/'' \<and>
          \<not> isAdmin (from_id ex_alice_threaded) ex_store \<longrightarrow>
           fst (on_text ex_env_ok ex_alice_threaded ex_store)
             = [SendMessage 41 (Plain (message_text ex_alice_threaded)), Reply (ReplySentTo ''Carl'' 41)] \<and>
           only_log_appended ex_store (snd (on_text ex_env_ok ex_alice_threaded ex_store))
             \<lparr>timestamp = clock ex_env_ok, user_id = 41, user_name = ''Carl'', agent_id = 1,
              agent_name = ''Alice'', direction = agent_to_user,
              message = message_text ex_alice_threaded\<rparr>)
       \<and> fst (on_voice ex_env_ok ex_alice_threaded ex_store)
             = [SendVoice 41 (voice_file_id ex_alice_threaded) None, Reply (VoiceReplySentTo ''Carl'')]
       \<and> only_log_appended ex_store (snd (on_voice ex_env_ok ex_alice_threaded ex_store))
             \<lparr>timestamp = clock ex_env_ok, user_id = 41, user_name = ''Carl'', agent_id = 1,
              agent_name = ''Alice'', direction = agent_to_user, message = ''[Voice Message]''\<rparr>
       \<and> (agent_sessions (db (snd (on_text ex_env_ok ex_carl ex_store))) \<noteq> agent_sessions (db ex_store) \<longrightarrow>
            \<not> isAgent (from_id ex_carl) ex_store \<and> \<not> isAdmin (from_id ex_carl) ex_store)
       \<and> (agent_sessions (db (snd (on_voice ex_env_ok ex_carl ex_store))) \<noteq> agent_sessions (db ex_store) \<longrightarrow>
            \<not> isAgent (from_id ex_carl) ex_store \<and> \<not> isAdmin (from_id ex_carl) ex_store)"
    by simp
  with h1 h2 h3 h4 h5 h6 t v show ?thesis
    by (simp add: vals)
qed

section \<open>Reply target resolution\<close>

text \<open>A mapping hit with a non-zero user id decides the target, whatever the session
  table holds; without a mapped thread reference the session decides.\<close>

lemma resolve_target_mapped:
  assumes "reply_to_message c = Some mid"
    and "getMessageMapping mid st = Some m"
    and "userId m \<noteq> 0"
  shows "resolve_target c st = (Some (userId m), userName m)"
  using assms by (simp add: resolve_target_def after_mapping_lookup_def)

lemma resolve_target_unmapped:
  assumes "\<not> threads_to_mapped c st"
  shows "resolve_target c st =
           (case getAgentSession (from_id c) st of
              None \<Rightarrow> (None, ''User'')
            | Some session \<Rightarrow> (Some (userId session), userName session))"
  using assms
  by (auto simp: threads_to_mapped_def resolve_target_def after_mapping_lookup_def
      split: option.splits)

text \<open>Every event keeps the stored user ids non-zero: only the user branches of the two
  handlers write a mapping, and they store the sender's id.\<close>

lemma mappings_nonzero_update:
  assumes "mappings_nonzero t" and "uid \<noteq> 0"
    and "message_mappings t' = (message_mappings t)(mid \<mapsto> \<lparr>userId = uid, userName = uname\<rparr>)"
  shows "mappings_nonzero t'"
  using assms by (auto simp: mappings_nonzero_def)

lemma mappings_nonzero_same:
  assumes "mappings_nonzero t" and "message_mappings t' = message_mappings t"
  shows "mappings_nonzero t'"
  using assms by (simp add: mappings_nonzero_def)

lemma pool_functions_keep_mappings:
  "message_mappings (db (snd (addAdmin x st))) = message_mappings (db st)"
  "message_mappings (db (removeAdmin x st)) = message_mappings (db st)"
  "message_mappings (db (snd (addAgent x nm st))) = message_mappings (db st)"
  "message_mappings (db (snd (removeAgent x st))) = message_mappings (db st)"
  "message_mappings (db (snd (setActiveAgent x st))) = message_mappings (db st)"
  "message_mappings (db (snd (deactivateAgent x st))) = message_mappings (db st)"
  by (simp_all add: addAdmin_def removeAdmin_def addAgent_def removeAgent_def setActiveAgent_def
      deactivateAgent_def insert_agent_def delete_agent_def delete_admin_def delete_session_def
      clear_active_def set_active_def run_def saveDb_def Let_def split: list.splits)

lemma user_text_mappings:
  "message_mappings (db (snd (user_text e c st))) = message_mappings (db st) \<or>
   (\<exists>mid. message_mappings (db (snd (user_text e c st))) =
      (message_mappings (db st))(mid \<mapsto> \<lparr>userId = from_id c, userName = userDisplayName_of c\<rparr>))"
  by (simp add: user_text_def write_defs Let_def split: option.splits sum.splits) blast

lemma user_voice_mappings:
  "message_mappings (db (snd (user_voice e c st))) = message_mappings (db st) \<or>
   (\<exists>mid. message_mappings (db (snd (user_voice e c st))) =
      (message_mappings (db st))(mid \<mapsto> \<lparr>userId = from_id c, userName = userDisplayName_of c\<rparr>))"
  by (simp add: user_voice_def write_defs Let_def split: option.splits sum.splits) blast

lemma on_text_mappings_nonzero:
  assumes "mappings_nonzero (db st)" and "from_id c \<noteq> 0"
  shows "mappings_nonzero (db (snd (on_text e c st)))"
proof -
  have user: "mappings_nonzero (db (snd (user_text e c st)))"
    using user_text_mappings[of e c st]
  proof
    assume "message_mappings (db (snd (user_text e c st))) = message_mappings (db st)"
    with assms(1) show ?thesis by (rule mappings_nonzero_same)
  next
    assume "\<exists>mid. message_mappings (db (snd (user_text e c st))) =
      (message_mappings (db st))(mid \<mapsto> \<lparr>userId = from_id c, userName = userDisplayName_of c\<rparr>)"
    then obtain mid where "message_mappings (db (snd (user_text e c st))) =
      (message_mappings (db st))(mid \<mapsto> \<lparr>userId = from_id c, userName = userDisplayName_of c\<rparr>)"
      by (rule exE)
    with assms show ?thesis by (rule mappings_nonzero_update)
  qed
  have agent: "mappings_nonzero (db (snd (agent_text e c st)))"
    using assms(1) agent_text_keeps_correlation[of e c st] by (simp add: mappings_nonzero_def)
  from user agent assms(1) show ?thesis
    by (simp add: on_text_def)
qed

lemma on_voice_mappings_nonzero:
  assumes "mappings_nonzero (db st)" and "from_id c \<noteq> 0"
  shows "mappings_nonzero (db (snd (on_voice e c st)))"
proof -
  have user: "mappings_nonzero (db (snd (user_voice e c st)))"
    using user_voice_mappings[of e c st]
  proof
    assume "message_mappings (db (snd (user_voice e c st))) = message_mappings (db st)"
    with assms(1) show ?thesis by (rule mappings_nonzero_same)
  next
    assume "\<exists>mid. message_mappings (db (snd (user_voice e c st))) =
      (message_mappings (db st))(mid \<mapsto> \<lparr>userId = from_id c, userName = userDisplayName_of c\<rparr>)"
    then obtain mid where "message_mappings (db (snd (user_voice e c st))) =
      (message_mappings (db st))(mid \<mapsto> \<lparr>userId = from_id c, userName = userDisplayName_of c\<rparr>)"
      by (rule exE)
    with assms show ?thesis by (rule mappings_nonzero_update)
  qed
  have agent: "mappings_nonzero (db (snd (agent_voice e c st)))"
    using assms(1) agent_voice_keeps_correlation[of e c st] by (simp add: mappings_nonzero_def)
  from user agent assms(1) show ?thesis
    by (simp add: on_voice_def)
qed

lemma apply_op_mappings_nonzero:
  assumes "mappings_nonzero (db st)" and "platform_event x"
  shows "mappings_nonzero (db (apply_op x st))"
proof (cases x)
  case (OnText e c)
  with assms on_text_mappings_nonzero[of st c e] show ?thesis by simp
next
  case (OnVoice e c)
  with assms on_voice_mappings_nonzero[of st c e] show ?thesis by simp
qed (use assms in \<open>simp_all add: mappings_nonzero_def pool_functions_keep_mappings\<close>)

lemma fold_apply_op_mappings_nonzero:
  assumes "mappings_nonzero (db st)" and "list_all platform_event ops"
  shows "mappings_nonzero (db (fold apply_op ops st))"
  using assms
proof (induction ops arbitrary: st)
  case Nil
  then show ?case by simp
next
  case (Cons x ops)
  from Cons.prems have "mappings_nonzero (db (apply_op x st))"
    by (simp add: apply_op_mappings_nonzero)
  moreover from Cons.prems have "list_all platform_event ops"
    by simp
  ultimately have "mappings_nonzero (db (fold apply_op ops (apply_op x st)))"
    by (rule Cons.IH)
  then show ?case by simp
qed

text \<open>
  C2. Let the store \<open>st\<close> be reached, from a store in which no mapping holds the user id
  0 (the empty database is one), by any sequence of events: messages of Telegram users
  and admin operations. When an agent message is a threaded reply to a message for
  which \<open>st\<close> holds a mapping, the resolved target is the mapping's user id and user name,
  whatever the session table holds, also when it names another user; the text handler
  and the voice handler of an active agent then send to that user. When the message
  does not thread to a mapped message, the target is the one of the agent's session, if
  there is one.
\<close>

theorem mapping_beats_session:
  assumes "mappings_nonzero (db st0)" and "list_all platform_event ops"
    and "st = fold apply_op ops st0"
    and "reply_to_message c = Some mid"
    and "getMessageMapping mid st = Some m"
  shows "resolve_target c st = (Some (userId m), userName m)
       \<and> resolve_target c (run (\<lambda>t. t\<lparr>agent_sessions := S\<rparr>) st) = (Some (userId m), userName m)
       \<and> (isAgent (from_id c) st \<and> getAgentByTelegramId (from_id c) st = Some a \<and> is_active a \<noteq> 0 \<longrightarrow>
            (\<not> startsWith (message_text c) ''/'' \<and> \<not> isAdmin (from_id c) st \<longrightarrow>
               (\<exists>r. fst (on_text e c st) = [SendMessage (userId m) (Plain (message_text c)), r])) \<and>
            (\<exists>r. fst (on_voice e c st) = [SendVoice (userId m) (voice_file_id c) None, r]))
       \<and> (\<not> threads_to_mapped c' st' \<longrightarrow>
            resolve_target c' st' =
              (case getAgentSession (from_id c') st' of
                 None \<Rightarrow> (None, ''User'')
               | Some session \<Rightarrow> (Some (userId session), userName session)))"
proof -
  from assms(1-3) have "mappings_nonzero (db st)"
    by (simp add: fold_apply_op_mappings_nonzero)
  with assms(5) have nz: "userId m \<noteq> 0"
    by (simp add: mappings_nonzero_def getMessageMapping_def)
  have r: "resolve_target c st = (Some (userId m), userName m)"
    using assms(4,5) nz by (rule resolve_target_mapped)
  have "getMessageMapping mid (run (\<lambda>t. t\<lparr>agent_sessions := S\<rparr>) st) = Some m"
    using assms(5) by (simp add: getMessageMapping_def run_def)
  with assms(4)
  have r': "resolve_target c (run (\<lambda>t. t\<lparr>agent_sessions := S\<rparr>) st) = (Some (userId m), userName m)"
    using nz by (rule resolve_target_mapped)
  have h: "isAgent (from_id c) st \<and> getAgentByTelegramId (from_id c) st = Some a \<and> is_active a \<noteq> 0 \<longrightarrow>
            (\<not> startsWith (message_text c) ''/'' \<and> \<not> isAdmin (from_id c) st \<longrightarrow>
               (\<exists>r. fst (on_text e c st) = [SendMessage (userId m) (Plain (message_text c)), r])) \<and>
            (\<exists>r. fst (on_voice e c st) = [SendVoice (userId m) (voice_file_id c) None, r])"
    using r nz
    by (cases "send_outcome e") (simp_all add: on_text_def on_voice_def agent_text_def agent_voice_def)
  have s: "\<not> threads_to_mapped c' st' \<longrightarrow>
            resolve_target c' st' =
              (case getAgentSession (from_id c') st' of
                 None \<Rightarrow> (None, ''User'')
               | Some session \<Rightarrow> (Some (userId session), userName session))"
    using resolve_target_unmapped[of c' st'] by simp
  show ?thesis
    by (intro conjI) (rule r, rule r', rule h, rule s)
qed

lemma ex_after_two_users_tables:
  "getMessageMapping 101 ex_after_two_users = Some \<lparr>userId = 41, userName = ''Carl (@carl41)''\<rparr>"
  "getAgentSession 7 ex_after_two_users = Some \<lparr>userId = 43, userName = ''Eve''\<rparr>"
  "agents (db ex_after_two_users) = agents ex_tables"
  "admins (db ex_after_two_users) = admins ex_tables"
  by (simp_all add: ex_defs ex_defs2 query_defs handler_defs write_defs Let_def)

theorem mapping_beats_session_witness:
  "mappings_nonzero (db ex_store)
   \<and> list_all platform_event ex_two_users
   \<and> ex_after_two_users = fold apply_op ex_two_users ex_store
   \<and> reply_to_message ex_alice_reply_101 = Some 101
   \<and> getMessageMapping 101 ex_after_two_users = Some \<lparr>userId = 41, userName = ''Carl (@carl41)''\<rparr>
   \<and> getAgentSession (from_id ex_alice_reply_101) ex_after_two_users
        = Some \<lparr>userId = 43, userName = ''Eve''\<rparr>
   \<and> resolve_target ex_alice_reply_101 ex_after_two_users = (Some 41, ''Carl (@carl41)'')
   \<and> resolve_target ex_alice_reply_101 (run (\<lambda>t. t\<lparr>agent_sessions := Map.empty\<rparr>) ex_after_two_users)
        = (Some 41, ''Carl (@carl41)'')
   \<and> isAgent (from_id ex_alice_reply_101) ex_after_two_users
   \<and> \<not> isAdmin (from_id ex_alice_reply_101) ex_after_two_users
   \<and> \<not> startsWith (message_text ex_alice_reply_101) ''/''
   \<and> (\<exists>r. fst (on_text ex_env_ok ex_alice_reply_101 ex_after_two_users)
            = [SendMessage 41 (Plain (message_text ex_alice_reply_101)), r])
   \<and> (\<exists>r. fst (on_voice ex_env_ok ex_alice_reply_101 ex_after_two_users)
            = [SendVoice 41 (voice_file_id ex_alice_reply_101) None, r])
   \<and> \<not> threads_to_mapped ex_bob_plain ex_store
   \<and> resolve_target ex_bob_plain ex_store = (Some 42, ''Dana'')"
proof -
  have g1: "mappings_nonzero (db ex_store)"
    by (auto simp: mappings_nonzero_def ex_defs split: if_splits)
  have g2: "list_all platform_event ex_two_users"
    by (simp add: ex_defs ex_defs2)
  have g3: "ex_after_two_users = fold apply_op ex_two_users ex_store"
    by (simp add: ex_after_two_users_def ex_two_users_def)
  have h1: "reply_to_message ex_alice_reply_101 = Some 101"
    by (simp add: ex_defs2)
  note h2 = ex_after_two_users_tables(1)
  have f: "from_id ex_alice_reply_101 = 7"
    by (simp add: ex_defs2)
  have h3: "getAgentSession (from_id ex_alice_reply_101) ex_after_two_users
        = Some \<lparr>userId = 43, userName = ''Eve''\<rparr>"
    using ex_after_two_users_tables(2) f by simp
  have h4: "isAgent (from_id ex_alice_reply_101) ex_after_two_users"
    by (simp add: f isAgent_def ex_after_two_users_tables(3)) (simp add: ex_defs)
  have h5: "\<not> isAdmin (from_id ex_alice_reply_101) ex_after_two_users"
    by (simp add: f isAdmin_def ex_after_two_users_tables(4)) (simp add: ex_defs)
  have h6: "\<not> startsWith (message_text ex_alice_reply_101) ''/''"
    by (simp add: ex_defs2)
  have h7: "getAgentByTelegramId (from_id ex_alice_reply_101) ex_after_two_users
       = Some \<lparr>row_id = 1, telegram_id = 7, name = ''Alice'', is_active = 1\<rparr>"
    by (simp add: f getAgentByTelegramId_def ex_after_two_users_tables(3)) (simp add: ex_defs)
  have h8: "\<not> threads_to_mapped ex_bob_plain ex_store"
    by (simp add: ex_defs query_defs)
  have h9: "getAgentSession (from_id ex_bob_plain) ex_store = Some \<lparr>userId = 42, userName = ''Dana''\<rparr>"
    by (simp add: ex_defs query_defs)
  from mapping_beats_session[OF g1 g2 g3 h1 h2, where S = Map.empty and e = ex_env_ok
      and c' = ex_bob_plain and st' = ex_store
      and a = "\<lparr>row_id = 1, telegram_id = 7, name = ''Alice'', is_active = 1\<rparr>"]
    h1 h3 h4 h5 h6 h7 h8 h9
  have rest: "resolve_target ex_alice_reply_101 ex_after_two_users = (Some 41, ''Carl (@carl41)'')
   \<and> resolve_target ex_alice_reply_101 (run (\<lambda>t. t\<lparr>agent_sessions := Map.empty\<rparr>) ex_after_two_users)
        = (Some 41, ''Carl (@carl41)'')
   \<and> (\<exists>r. fst (on_text ex_env_ok ex_alice_reply_101 ex_after_two_users)
            = [SendMessage 41 (Plain (message_text ex_alice_reply_101)), r])
   \<and> (\<exists>r. fst (on_voice ex_env_ok ex_alice_reply_101 ex_after_two_users)
            = [SendVoice 41 (voice_file_id ex_alice_reply_101) None, r])
   \<and> resolve_target ex_bob_plain ex_store = (Some 42, ''Dana'')"
    by simp
  show ?thesis
    by (intro conjI)
      (rule g1, rule g2, rule g3, rule h1, rule h2, rule h3, rule rest[THEN conjunct1],
       rule rest[THEN conjunct2, THEN conjunct1], rule h4, rule h5, rule h6,
       rule rest[THEN conjunct2, THEN conjunct2, THEN conjunct1],
       rule rest[THEN conjunct2, THEN conjunct2, THEN conjunct2, THEN conjunct1],
       rule h8, rule rest[THEN conjunct2, THEN conjunct2, THEN conjunct2, THEN conjunct2])
qed

section \<open>End-user messages\<close>

text \<open>
  C3. For a text or voice message of an end user (neither admin nor agent) while an
  active agent exists: if the transport send to the agent fails, the store is exactly
  as before (no mapping, session or log entry written) and the user is answered with an
  error notice; if it succeeds with message id \<open>mid\<close>, the mapping for \<open>mid\<close>, the
  agent's session and the log entry are written, in this order, on top of the store.
  Hence the store changes only when the send has succeeded.
\<close>

theorem state_written_after_send:
  assumes "\<not> isAdmin (from_id c) st" and "\<not> isAgent (from_id c) st"
    and "getActiveAgent st = Some a"
  shows "(\<not> startsWith (message_text c) ''/'' \<longrightarrow>
           (\<forall>err. send_outcome e = Inl err \<longrightarrow>
              on_text e c st =
                ([SendMessage (telegram_id a)
                    (ForwardText (userName_of c) (userUsername_of c) (from_id c) (message_text c)),
                  Reply (if includes_str err ''chat not found'' \<or> includes_str err ''bot was blocked''
                         then AgentHasNotStartedBot else ErrorSendingMessage)], st))
         \<and> (\<forall>mid. send_outcome e = Inr mid \<longrightarrow>
              on_text e c st =
                ([SendMessage (telegram_id a)
                    (ForwardText (userName_of c) (userUsername_of c) (from_id c) (message_text c)),
                  Reply MessageReceived],
                 logMessage (clock e) (from_id c) (userDisplayName_of c) (row_id a) (name a)
                   user_to_agent (message_text c)
                   (setAgentSession (telegram_id a) (from_id c) (userDisplayName_of c)
                      (addMessageMapping mid (from_id c) (userDisplayName_of c) st))))
         \<and> (snd (on_text e c st) \<noteq> st \<longrightarrow> (\<exists>mid. send_outcome e = Inr mid)))
       \<and> (\<forall>err. send_outcome e = Inl err \<longrightarrow>
              on_voice e c st =
                ([Reply ProcessingVoice,
                  SendVoice (telegram_id a) (voice_file_id c)
                    (Some (ForwardHeader (userName_of c) (userUsername_of c) (from_id c)
                       (transcribeVoice e))),
                  Reply ErrorSendingVoice], st))
       \<and> (\<forall>mid. send_outcome e = Inr mid \<longrightarrow>
              on_voice e c st =
                ([Reply ProcessingVoice,
                  SendVoice (telegram_id a) (voice_file_id c)
                    (Some (ForwardHeader (userName_of c) (userUsername_of c) (from_id c)
                       (transcribeVoice e))),
                  Reply VoiceMessageSent],
                 logMessage (clock e) (from_id c) (userDisplayName_of c) (row_id a) (name a)
                   user_to_agent (''[Voice] '' @ transcribeVoice e)
                   (setAgentSession (telegram_id a) (from_id c) (userDisplayName_of c)
                      (addMessageMapping mid (from_id c) (userDisplayName_of c) st))))
       \<and> (snd (on_voice e c st) \<noteq> st \<longrightarrow> (\<exists>mid. send_outcome e = Inr mid))"
  using assms
  by (cases "send_outcome e") (simp_all add: on_text_def user_text_def on_voice_def user_voice_def Let_def)

theorem state_written_after_send_witness:
  "\<not> isAdmin (from_id ex_carl) ex_store
   \<and> \<not> isAgent (from_id ex_carl) ex_store
   \<and> getActiveAgent ex_store = Some \<lparr>row_id = 1, telegram_id = 7, name = ''Alice'', is_active = 1\<rparr>
   \<and> \<not> startsWith (message_text ex_carl) ''/''
   \<and> send_outcome ex_env_fail = Inl ''403: bot was blocked by the user''
   \<and> on_text ex_env_fail ex_carl ex_store
        = ([SendMessage 7 (ForwardText ''Carl'' ''@carl41'' 41 ''help''),
            Reply AgentHasNotStartedBot], ex_store)
   \<and> on_voice ex_env_fail ex_carl ex_store
        = ([Reply ProcessingVoice,
            SendVoice 7 ''voice-u''
              (Some (ForwardHeader ''Carl'' ''@carl41'' 41 ''[Error transcribing voice message]'')),
            Reply ErrorSendingVoice], ex_store)
   \<and> send_outcome ex_env_ok = Inr 101
   \<and> on_text ex_env_ok ex_carl ex_store
        = ([SendMessage 7 (ForwardText ''Carl'' ''@carl41'' 41 ''help''), Reply MessageReceived],
           logMessage ''2024-01-01T10:00:00.000Z'' 41 ''Carl (@carl41)'' 1 ''Alice'' user_to_agent ''help''
             (setAgentSession 7 41 ''Carl (@carl41)''
                (addMessageMapping 101 41 ''Carl (@carl41)'' ex_store)))
   \<and> snd (on_text ex_env_ok ex_carl ex_store) \<noteq> ex_store
   \<and> snd (on_voice ex_env_ok ex_carl ex_store) \<noteq> ex_store"
proof -
  have h1: "\<not> isAdmin (from_id ex_carl) ex_store"
    by (simp add: ex_defs query_defs)
  have h2: "\<not> isAgent (from_id ex_carl) ex_store"
    by (simp add: ex_defs query_defs)
  have h3: "getActiveAgent ex_store = Some \<lparr>row_id = 1, telegram_id = 7, name = ''Alice'', is_active = 1\<rparr>"
    by (simp add: ex_defs query_defs)
  have h4: "\<not> startsWith (message_text ex_carl) ''/''"
    by (simp add: ex_defs)
  have h5: "send_outcome ex_env_fail = Inl ''403: bot was blocked by the user''"
    by (simp add: ex_defs)
  have h6: "send_outcome ex_env_ok = Inr 101"
    by (simp add: ex_defs)
  have vals: "userName_of ex_carl = ''Carl''" "userUsername_of ex_carl = ''@carl41''"
    "userDisplayName_of ex_carl = ''Carl (@carl41)''"
    "from_id ex_carl = 41" "message_text ex_carl = ''help''" "voice_file_id ex_carl = ''voice-u''"
    "clock ex_env_ok = ''2024-01-01T10:00:00.000Z''"
    "transcribeVoice ex_env_fail = ''[Error transcribing voice message]''"
    "includes_str ''403: bot was blocked by the user'' ''bot was blocked''"
    by (simp_all add: ex_defs handler_defs)
  have t: "saved (snd (on_text ex_env_ok ex_carl ex_store)) \<noteq> saved ex_store"
    by (simp add: ex_defs query_defs handler_defs write_defs Let_def)
  have v: "saved (snd (on_voice ex_env_ok ex_carl ex_store)) \<noteq> saved ex_store"
    by (simp add: ex_defs query_defs handler_defs write_defs Let_def)
  from t have t': "snd (on_text ex_env_ok ex_carl ex_store) \<noteq> ex_store" by auto
  from v have v': "snd (on_voice ex_env_ok ex_carl ex_store) \<noteq> ex_store" by auto
  from state_written_after_send[OF h1 h2 h3, of ex_env_fail]
    state_written_after_send[OF h1 h2 h3, of ex_env_ok] h1 h2 h3 h4 h5 h6 t' v'
  show ?thesis by (simp add: vals)
qed

section \<open>Voice messages\<close>

text \<open>
  C8 (as amended). For a voice message of an end user while an active agent exists,
  when the transcription step fails (the key is configured and the download or the
  transcription throws), \<open>transcribeVoice\<close> returns the placeholder
  "[Error transcribing voice message]" and delivery goes on: the voice file is sent to
  the active agent with the placeholder in its caption, and when that send succeeds
  with message id \<open>mid\<close> the mapping for \<open>mid\<close> and the agent's session name the user
  and one user-to-agent log entry is appended whose text is "[Voice] " followed by the
  placeholder.
\<close>

theorem voice_fail_open:
  assumes "\<not> isAgent (from_id c) st" and "\<not> isAdmin (from_id c) st"
    and "getActiveAgent st = Some a"
    and "OPENAI_API_KEY e \<noteq> ''YOUR_OPENAI_API_KEY''" and "whisper_outcome e = None"
  shows "transcribeVoice e = ''[Error transcribing voice message]''
       \<and> (\<exists>r. fst (on_voice e c st) =
              [Reply ProcessingVoice,
               SendVoice (telegram_id a) (voice_file_id c)
                 (Some (ForwardHeader (userName_of c) (userUsername_of c) (from_id c)
                    ''[Error transcribing voice message]'')), r])
       \<and> (\<forall>mid. send_outcome e = Inr mid \<longrightarrow>
             getMessageMapping mid (snd (on_voice e c st))
               = Some \<lparr>userId = from_id c, userName = userDisplayName_of c\<rparr> \<and>
             getAgentSession (telegram_id a) (snd (on_voice e c st))
               = Some \<lparr>userId = from_id c, userName = userDisplayName_of c\<rparr> \<and>
             conversation_logs (db (snd (on_voice e c st))) =
               conversation_logs (db st) @
                 [\<lparr>timestamp = clock e, user_id = from_id c, user_name = userDisplayName_of c,
                   agent_id = row_id a, agent_name = name a, direction = user_to_agent,
                   message = ''[Voice] [Error transcribing voice message]''\<rparr>])"
proof -
  have p: "transcribeVoice e = ''[Error transcribing voice message]''"
    using assms(4,5) by (simp add: transcribeVoice_def)
  have s: "\<exists>r. fst (on_voice e c st) =
              [Reply ProcessingVoice,
               SendVoice (telegram_id a) (voice_file_id c)
                 (Some (ForwardHeader (userName_of c) (userUsername_of c) (from_id c)
                    ''[Error transcribing voice message]'')), r]"
    using assms(1-3) p
    by (cases "send_outcome e") (simp_all add: on_voice_def user_voice_def Let_def)
  have w: "\<forall>mid. send_outcome e = Inr mid \<longrightarrow>
             getMessageMapping mid (snd (on_voice e c st))
               = Some \<lparr>userId = from_id c, userName = userDisplayName_of c\<rparr> \<and>
             getAgentSession (telegram_id a) (snd (on_voice e c st))
               = Some \<lparr>userId = from_id c, userName = userDisplayName_of c\<rparr> \<and>
             conversation_logs (db (snd (on_voice e c st))) =
               conversation_logs (db st) @
                 [\<lparr>timestamp = clock e, user_id = from_id c, user_name = userDisplayName_of c,
                   agent_id = row_id a, agent_name = name a, direction = user_to_agent,
                   message = ''[Voice] [Error transcribing voice message]''\<rparr>]"
    using assms(1-3) p
    by (simp add: on_voice_def user_voice_def Let_def write_defs getMessageMapping_def
        getAgentSession_def)
  from p s w show ?thesis by blast
qed

theorem voice_fail_open_witness:
  "\<not> isAgent (from_id ex_carl) ex_store
   \<and> \<not> isAdmin (from_id ex_carl) ex_store
   \<and> getActiveAgent ex_store = Some \<lparr>row_id = 1, telegram_id = 7, name = ''Alice'', is_active = 1\<rparr>
   \<and> OPENAI_API_KEY ex_env_ok \<noteq> ''YOUR_OPENAI_API_KEY''
   \<and> whisper_outcome ex_env_ok = None
   \<and> send_outcome ex_env_ok = Inr 101
   \<and> transcribeVoice ex_env_ok = ''[Error transcribing voice message]''
   \<and> (\<exists>r. fst (on_voice ex_env_ok ex_carl ex_store) =
            [Reply ProcessingVoice,
             SendVoice 7 ''voice-u''
               (Some (ForwardHeader ''Carl'' ''@carl41'' 41 ''[Error transcribing voice message]'')), r])
   \<and> getMessageMapping 101 (snd (on_voice ex_env_ok ex_carl ex_store))
        = Some \<lparr>userId = 41, userName = ''Carl (@carl41)''\<rparr>
   \<and> getAgentSession 7 (snd (on_voice ex_env_ok ex_carl ex_store))
        = Some \<lparr>userId = 41, userName = ''Carl (@carl41)''\<rparr>
   \<and> conversation_logs (db (snd (on_voice ex_env_ok ex_carl ex_store))) =
        conversation_logs (db ex_store) @
          [\<lparr>timestamp = ''2024-01-01T10:00:00.000Z'', user_id = 41, user_name = ''Carl (@carl41)'',
            agent_id = 1, agent_name = ''Alice'', direction = user_to_agent,
            message = ''[Voice] [Error transcribing voice message]''\<rparr>]"
proof -
  have h1: "\<not> isAgent (from_id ex_carl) ex_store"
    by (simp add: ex_defs query_defs)
  have h2: "\<not> isAdmin (from_id ex_carl) ex_store"
    by (simp add: ex_defs query_defs)
  have h3: "getActiveAgent ex_store = Some \<lparr>row_id = 1, telegram_id = 7, name = ''Alice'', is_active = 1\<rparr>"
    by (simp add: ex_defs query_defs)
  have h4: "OPENAI_API_KEY ex_env_ok \<noteq> ''YOUR_OPENAI_API_KEY''"
    by (simp add: ex_defs)
  have h5: "whisper_outcome ex_env_ok = None"
    by (simp add: ex_defs)
  have h6: "send_outcome ex_env_ok = Inr 101"
    by (simp add: ex_defs)
  have vals: "userName_of ex_carl = ''Carl''" "userUsername_of ex_carl = ''@carl41''"
    "userDisplayName_of ex_carl = ''Carl (@carl41)''"
    "from_id ex_carl = 41" "voice_file_id ex_carl = ''voice-u''"
    "clock ex_env_ok = ''2024-01-01T10:00:00.000Z''"
    by (simp_all add: ex_defs handler_defs)
  from voice_fail_open[OF h1 h2 h3 h4 h5] h1 h2 h3 h4 h5 h6
  show ?thesis by (simp add: vals)
qed

text \<open>
  C8 as stated fails in its last part: in the same run the logged text is not the
  placeholder that \<open>transcribeVoice\<close> returned but that placeholder after the prefix
  "[Voice] ".
\<close>

theorem voice_fail_open_counterexample:
  "\<not> isAgent (from_id ex_carl) ex_store
   \<and> \<not> isAdmin (from_id ex_carl) ex_store
   \<and> getActiveAgent ex_store \<noteq> None
   \<and> whisper_outcome ex_env_ok = None
   \<and> transcribeVoice ex_env_ok = ''[Error transcribing voice message]''
   \<and> map message (conversation_logs (db (snd (on_voice ex_env_ok ex_carl ex_store))))
        = [''[Voice] [Error transcribing voice message]'']
   \<and> map message (conversation_logs (db (snd (on_voice ex_env_ok ex_carl ex_store))))
        \<noteq> [transcribeVoice ex_env_ok]"
  by (simp add: ex_defs query_defs handler_defs write_defs Let_def)

text \<open>In the text handler the admin test comes first: a text of an admin, agent or
  not, changes nothing and is answered with the admin notice (or, for a command, not at
  all).\<close>

lemma on_text_admin_precedence:
  assumes "isAdmin (from_id c) st"
  shows "snd (on_text e c st) = st"
    and "fst (on_text e c st) = (if startsWith (message_text c) ''/'' then [] else [Reply AdminNotRouted])"
  using assms by (simp_all add: on_text_def)

text \<open>
  C1 fails in the voice handler, which tests \<open>isAgent\<close> before \<open>isAdmin\<close>. With the
  identity 7 registered as admin and as agent, the text handler answers Alice's message
  with the admin notice and leaves the store alone, while the voice handler routes her
  voice message to the user Carl and appends a log entry.
\<close>

theorem admin_agent_voice_is_routed:
  "isAdmin (from_id ex_alice_threaded) ex_admin_agent_store
   \<and> isAgent (from_id ex_alice_threaded) ex_admin_agent_store
   \<and> on_text ex_env_ok ex_alice_threaded ex_admin_agent_store
        = ([Reply AdminNotRouted], ex_admin_agent_store)
   \<and> on_voice ex_env_ok ex_alice_threaded ex_admin_agent_store
        = ([SendVoice 41 ''voice-a'' None, Reply (VoiceReplySentTo ''Carl'')],
           logMessage ''2024-01-01T10:00:00.000Z'' 41 ''Carl'' 1 ''Alice'' agent_to_user
             ''[Voice Message]'' ex_admin_agent_store)
   \<and> conversation_logs (db (snd (on_voice ex_env_ok ex_alice_threaded ex_admin_agent_store)))
        \<noteq> conversation_logs (db ex_admin_agent_store)"
  by (simp add: ex_defs ex_defs2 query_defs handler_defs write_defs)

section \<open>Conversation log queries\<close>

lemma order_by_timestamp_desc_sorted:
  "sorted_wrt (\<lambda>x y. timestamp y \<le> timestamp x) (order_by_timestamp_desc rows)"
proof -
  have "sorted (map timestamp (sort_key timestamp (rev rows)))"
    by (rule sorted_sort_key)
  then have "sorted_wrt (\<lambda>x y. timestamp x \<le> timestamp y) (sort_key timestamp (rev rows))"
    by (simp only: sorted_map)
  then show ?thesis
    by (simp only: order_by_timestamp_desc_def sorted_wrt_rev)
qed

lemma order_by_timestamp_desc_set [simp]:
  "set (order_by_timestamp_desc rows) = set rows"
  by (simp add: order_by_timestamp_desc_def)

lemma order_by_timestamp_desc_length [simp]:
  "length (order_by_timestamp_desc rows) = length rows"
  by (simp add: order_by_timestamp_desc_def)

lemma take_desc_sorted:
  "sorted_wrt (\<lambda>x y. timestamp y \<le> timestamp x) (take n (order_by_timestamp_desc rows))"
  using order_by_timestamp_desc_sorted[of rows] by (rule sorted_wrt_take)

text \<open>Rows of one timestamp keep their insertion order, also under a limit.\<close>

lemma order_by_timestamp_desc_ties:
  "map message (order_by_timestamp_desc ex_same_time_rows) = [''a1'', ''a2'', ''a3'']"
  "map message (take 1 (order_by_timestamp_desc ex_same_time_rows)) = [''a1'']"
  by (simp_all add: order_by_timestamp_desc_def ex_same_time_rows_def)

text \<open>
  With a user id other than 0, \<open>getLogs (Some u) n\<close> returns the \<open>n\<close> first, or all if
  fewer, of the log entries of user \<open>u\<close> in descending order of timestamp: at most \<open>n\<close>
  entries, each an entry of the log with \<open>user_id = u\<close>, and the empty list when the user
  has no entry. Without a filter, \<open>getLogs None n\<close> returns at most \<open>n\<close> entries of the log
  in descending order of timestamp, and the empty list when the log is empty.
\<close>

lemma getLogs_nonzero_filter:
  assumes "u \<noteq> 0"
  shows "length (getLogs (Some u) n st)
           = min n (length [e \<leftarrow> conversation_logs (db st). user_id e = u])
       \<and> (\<forall>e \<in> set (getLogs (Some u) n st). user_id e = u \<and> e \<in> set (conversation_logs (db st)))
       \<and> sorted_wrt (\<lambda>x y. timestamp y \<le> timestamp x) (getLogs (Some u) n st)
       \<and> ([e \<leftarrow> conversation_logs (db st). user_id e = u] = [] \<longrightarrow> getLogs (Some u) n st = [])
       \<and> length (getLogs None n st) = min n (length (conversation_logs (db st)))
       \<and> set (getLogs None n st) \<subseteq> set (conversation_logs (db st))
       \<and> sorted_wrt (\<lambda>x y. timestamp y \<le> timestamp x) (getLogs None n st)"
proof -
  let ?rows = "[e \<leftarrow> conversation_logs (db st). user_id e = u]"
  have f: "getLogs (Some u) n st = take n (order_by_timestamp_desc ?rows)"
    using assms by (simp add: getLogs_def)
  have g: "getLogs None n st = take n (order_by_timestamp_desc (conversation_logs (db st)))"
    by (simp add: getLogs_def)
  have 1: "length (getLogs (Some u) n st) = min n (length ?rows)"
    by (simp add: f min.commute)
  have 2: "\<forall>e \<in> set (getLogs (Some u) n st). user_id e = u \<and> e \<in> set (conversation_logs (db st))"
  proof
    fix e assume "e \<in> set (getLogs (Some u) n st)"
    then have "e \<in> set (order_by_timestamp_desc ?rows)"
      unfolding f by (rule in_set_takeD)
    then show "user_id e = u \<and> e \<in> set (conversation_logs (db st))" by simp
  qed
  have 3: "sorted_wrt (\<lambda>x y. timestamp y \<le> timestamp x) (getLogs (Some u) n st)"
    unfolding f by (rule take_desc_sorted)
  have 4: "?rows = [] \<longrightarrow> getLogs (Some u) n st = []"
    by (simp add: f order_by_timestamp_desc_def)
  have 5: "length (getLogs None n st) = min n (length (conversation_logs (db st)))"
    by (simp add: g min.commute)
  have 6: "set (getLogs None n st) \<subseteq> set (conversation_logs (db st))"
    unfolding g using set_take_subset[of n "order_by_timestamp_desc (conversation_logs (db st))"]
    by simp
  have 7: "sorted_wrt (\<lambda>x y. timestamp y \<le> timestamp x) (getLogs None n st)"
    unfolding g by (rule take_desc_sorted)
  show ?thesis
    by (intro conjI) (rule 1, rule 2, rule 3, rule 4, rule 5, rule 6, rule 7)
qed

lemma ex_getLogs_values:
  "map message (getLogs (Some 41) 2 ex_log_store) = [''third'', ''second'']"
  "map message (getLogs None 3 ex_log_store) = [''third'', ''second'', ''other'']"
  "getLogs (Some 77) 5 ex_log_store = []"
  by (simp_all add: getLogs_def order_by_timestamp_desc_def ex_log_store_def ex_tables_def)

text \<open>
  C9 fails for the user id 0, which the handler of \<open>/logs 0\<close> accepts as a filter value
  and passes on with the limit 20: \<open>getLogs\<close> tests the id for truthiness, skips the
  filter, and returns the entries of the users 41 and 43, none of which has
  \<open>user_id = 0\<close>, where the claim (and the command's help text, "view specific user's
  conversations") asks for the entries of user 0, of which there is none.
\<close>

theorem getLogs_zero_filter_is_skipped:
  "[e \<leftarrow> conversation_logs (db ex_log_store). user_id e = 0] = []
   \<and> map user_id (getLogs (Some 0) 20 ex_log_store) = [41, 41, 43, 41]
   \<and> map message (getLogs (Some 0) 20 ex_log_store) = [''third'', ''second'', ''other'', ''first'']
   \<and> (0::int) \<notin> set (map user_id (getLogs (Some 0) 20 ex_log_store))
   \<and> getLogs (Some 0) 20 ex_log_store \<noteq> []"
  by (simp add: getLogs_def order_by_timestamp_desc_def ex_log_store_def ex_tables_def)

section \<open>The agent pool\<close>

lemma filter_key_le_1:
  "distinct (map f xs) \<Longrightarrow> length [x \<leftarrow> xs. f x = k] \<le> Suc 0"
proof (induction xs)
  case Nil
  then show ?case by simp
next
  case (Cons x xs)
  show ?case
  proof (cases "f x = k")
    case True
    with Cons.prems have "[y \<leftarrow> xs. f y = k] = []"
      by (force simp: filter_empty_conv image_iff)
    with True show ?thesis by simp
  next
    case False
    with Cons show ?thesis by simp
  qed
qed

lemma filter_key_shape:
  assumes "distinct (map f xs)" and "a \<in> set xs" and "f a = k"
  shows "[x \<leftarrow> xs. f x = k] = [a]"
  using assms
proof (induction xs)
  case Nil
  then show ?case by simp
next
  case (Cons x xs)
  show ?case
  proof (cases "x = a")
    case True
    with Cons.prems have "[y \<leftarrow> xs. f y = k] = []"
      by (force simp: filter_empty_conv image_iff)
    with True Cons.prems show ?thesis by simp
  next
    case False
    with Cons.prems have "a \<in> set xs" by simp
    with Cons.prems have "f x \<noteq> k" by (force simp: image_iff)
    with Cons \<open>a \<in> set xs\<close> show ?thesis by simp
  qed
qed

lemma activate_rows_active:
  "[x \<leftarrow> map (\<lambda>a. if row_id a = b then a\<lparr>is_active := 1\<rparr> else a) (map (\<lambda>a. a\<lparr>is_active := 0\<rparr>) xs).
      is_active x \<noteq> 0]
   = map (\<lambda>a. a\<lparr>is_active := 1\<rparr>) [x \<leftarrow> xs. row_id x = b]"
  by (induction xs) auto

lemma activate_rows_active1:
  "[x \<leftarrow> map (\<lambda>a. if row_id a = b then a\<lparr>is_active := 1\<rparr> else a) (map (\<lambda>a. a\<lparr>is_active := 0\<rparr>) xs).
      is_active x = 1]
   = map (\<lambda>a. a\<lparr>is_active := 1\<rparr>) [x \<leftarrow> xs. row_id x = b]"
  by (induction xs) auto

lemma activate_rows_ids:
  "map row_id (map (\<lambda>a. if row_id a = b then a\<lparr>is_active := v\<rparr> else a) xs) = map row_id xs"
  "map telegram_id (map (\<lambda>a. if row_id a = b then a\<lparr>is_active := v\<rparr> else a) xs) = map telegram_id xs"
  "map row_id (map (\<lambda>a. a\<lparr>is_active := 0\<rparr>) xs) = map row_id xs"
  "map telegram_id (map (\<lambda>a. a\<lparr>is_active := 0\<rparr>) xs) = map telegram_id xs"
  by (induction xs) auto

lemma deactivate_rows_active:
  "length [x \<leftarrow> map (\<lambda>a. if row_id a = b then a\<lparr>is_active := 0\<rparr> else a) xs. is_active x \<noteq> 0]
   \<le> length [x \<leftarrow> xs. is_active x \<noteq> 0]"
  by (induction xs) auto

lemma filter_filter_length:
  "length [x \<leftarrow> [y \<leftarrow> xs. Q y]. P x] \<le> length [x \<leftarrow> xs. P x]"
  by (induction xs) auto

lemma max_rowid_bound:
  "x \<in> set xs \<Longrightarrow> row_id x \<le> foldr (\<lambda>a m. max (row_id a) m) xs 0"
  by (induction xs) auto

lemma next_rowid_fresh: "next_rowid t \<notin> row_id ` set (agents t)"
proof
  assume "next_rowid t \<in> row_id ` set (agents t)"
  then obtain x where "x \<in> set (agents t)" and "row_id x = next_rowid t" by auto
  with max_rowid_bound[of x "agents t"] show False
    by (simp add: next_rowid_def)
qed

lemma setActiveAgent_found:
  assumes "distinct (map row_id (agents (db st)))" and "r \<in> set (agents (db st))" and "row_id r = b"
  shows "setActiveAgent b st =
     (Success (''Agent '' @ [CHR 0x27] @ name r @ [CHR 0x27] @ '' is now active''),
      saveDb (run (set_active 1 b) (run clear_active st)))"
  using filter_key_shape[OF assms] by (simp add: setActiveAgent_def)

lemma setActiveAgent_missing:
  assumes "b \<notin> row_id ` set (agents (db st))"
  shows "setActiveAgent b st = (NotFound, st)"
proof -
  from assms have "[a \<leftarrow> agents (db st). row_id a = b] = []"
    by (auto simp: filter_empty_conv)
  then show ?thesis by (simp add: setActiveAgent_def)
qed

lemma setActiveAgent_agents:
  "agents (db (snd (setActiveAgent b st))) = agents (db st) \<or>
   agents (db (snd (setActiveAgent b st))) =
     map (\<lambda>a. if row_id a = b then a\<lparr>is_active := 1\<rparr> else a) (map (\<lambda>a. a\<lparr>is_active := 0\<rparr>) (agents (db st)))"
  by (simp add: setActiveAgent_def run_def saveDb_def clear_active_def set_active_def Let_def
      split: list.splits)

lemma setActiveAgent_admins [simp]:
  "admins (db (snd (setActiveAgent b st))) = admins (db st)"
  by (simp add: setActiveAgent_def run_def saveDb_def clear_active_def set_active_def Let_def
      split: list.splits)

lemma setActiveAgent_ids [simp]:
  "map row_id (agents (db (snd (setActiveAgent b st)))) = map row_id (agents (db st))"
  "map telegram_id (agents (db (snd (setActiveAgent b st)))) = map telegram_id (agents (db st))"
  using setActiveAgent_agents[of b st] by (auto simp: activate_rows_ids)

lemma setActiveAgent_invariant:
  assumes "wf_tables (db st)" and "at_most_one_active (db st)"
  shows "wf_tables (db (snd (setActiveAgent b st))) \<and> at_most_one_active (db (snd (setActiveAgent b st)))"
proof -
  have w: "wf_tables (db (snd (setActiveAgent b st)))"
    using assms(1) by (simp add: wf_tables_def)
  from assms(1) have d: "distinct (map row_id (agents (db st)))"
    by (simp add: wf_tables_def)
  from setActiveAgent_agents[of b st] have "at_most_one_active (db (snd (setActiveAgent b st)))"
  proof
    assume "agents (db (snd (setActiveAgent b st))) = agents (db st)"
    with assms(2) show ?thesis by (simp add: at_most_one_active_def)
  next
    assume "agents (db (snd (setActiveAgent b st))) =
     map (\<lambda>a. if row_id a = b then a\<lparr>is_active := 1\<rparr> else a) (map (\<lambda>a. a\<lparr>is_active := 0\<rparr>) (agents (db st)))"
    then have "length [x \<leftarrow> agents (db (snd (setActiveAgent b st))). is_active x \<noteq> 0]
        = length [x \<leftarrow> agents (db st). row_id x = b]"
      by (simp only: activate_rows_active length_map)
    with filter_key_le_1[OF d, of b] show ?thesis
      by (simp add: at_most_one_active_def)
  qed
  with w show ?thesis by simp
qed

lemma invariant_cong:
  assumes "agents t' = agents t" and "admins t' = admins t"
    and "wf_tables t \<and> at_most_one_active t"
  shows "wf_tables t' \<and> at_most_one_active t'"
  using assms by (simp add: wf_tables_def at_most_one_active_def)

lemma addAdmin_invariant:
  assumes "wf_tables (db st) \<and> at_most_one_active (db st)"
  shows "wf_tables (db (snd (addAdmin x st))) \<and> at_most_one_active (db (snd (addAdmin x st)))"
  using assms
  by (simp add: addAdmin_def run_def saveDb_def wf_tables_def at_most_one_active_def)

lemma removeAdmin_invariant:
  assumes "wf_tables (db st) \<and> at_most_one_active (db st)"
  shows "wf_tables (db (removeAdmin x st)) \<and> at_most_one_active (db (removeAdmin x st))"
  using assms
  by (simp add: removeAdmin_def run_def saveDb_def wf_tables_def at_most_one_active_def)

lemma addAgent_invariant:
  assumes "wf_tables (db st) \<and> at_most_one_active (db st)"
  shows "wf_tables (db (snd (addAgent x nm st))) \<and> at_most_one_active (db (snd (addAgent x nm st)))"
  using assms next_rowid_fresh[of "db st"]
  by (simp add: addAgent_def insert_agent_def run_def saveDb_def wf_tables_def at_most_one_active_def)

lemma removeAgent_agents:
  "agents (db (snd (removeAgent b st))) = [a \<leftarrow> agents (db st). row_id a \<noteq> b]"
proof (cases "[a \<leftarrow> agents (db st). row_id a = b]")
  case Nil
  then have "\<forall>a \<in> set (agents (db st)). row_id a \<noteq> b"
    by (simp add: filter_empty_conv)
  then have "[a \<leftarrow> agents (db st). row_id a \<noteq> b] = agents (db st)"
    by simp
  with Nil show ?thesis by (simp add: removeAgent_def)
next
  case (Cons a as)
  then show ?thesis
    by (simp add: removeAgent_def run_def saveDb_def delete_agent_def delete_admin_def
        delete_session_def Let_def)
qed

lemma removeAgent_admins:
  "\<exists>P. admins (db (snd (removeAgent b st))) = filter P (admins (db st))"
proof (cases "[a \<leftarrow> agents (db st). row_id a = b]")
  case Nil
  then have "admins (db (snd (removeAgent b st))) = filter (\<lambda>_. True) (admins (db st))"
    by (simp add: removeAgent_def)
  then show ?thesis by blast
next
  case (Cons a as)
  then have "admins (db (snd (removeAgent b st))) = filter (\<lambda>r. r \<noteq> telegram_id a) (admins (db st))"
    by (simp add: removeAgent_def run_def saveDb_def delete_agent_def delete_admin_def
        delete_session_def Let_def)
  then show ?thesis by blast
qed

lemma removeAgent_invariant:
  assumes "wf_tables (db st) \<and> at_most_one_active (db st)"
  shows "wf_tables (db (snd (removeAgent b st))) \<and> at_most_one_active (db (snd (removeAgent b st)))"
proof -
  obtain P where P: "admins (db (snd (removeAgent b st))) = filter P (admins (db st))"
    using removeAgent_admins by blast
  have "length [x \<leftarrow> [y \<leftarrow> agents (db st). row_id y \<noteq> b]. is_active x \<noteq> 0]
      \<le> length [x \<leftarrow> agents (db st). is_active x \<noteq> 0]"
    by (rule filter_filter_length)
  with assms show ?thesis
    by (simp add: wf_tables_def at_most_one_active_def removeAgent_agents P distinct_map_filter)
qed

lemma deactivateAgent_agents:
  "agents (db (snd (deactivateAgent b st))) = agents (db st) \<or>
   agents (db (snd (deactivateAgent b st))) =
     map (\<lambda>a. if row_id a = b then a\<lparr>is_active := 0\<rparr> else a) (agents (db st))"
  by (simp add: deactivateAgent_def run_def saveDb_def set_active_def Let_def split: list.splits)

lemma deactivateAgent_admins:
  "admins (db (snd (deactivateAgent b st))) = admins (db st)"
  by (simp add: deactivateAgent_def run_def saveDb_def set_active_def Let_def split: list.splits)

lemma deactivateAgent_invariant:
  assumes "wf_tables (db st) \<and> at_most_one_active (db st)"
  shows "wf_tables (db (snd (deactivateAgent b st))) \<and>
         at_most_one_active (db (snd (deactivateAgent b st)))"
  using deactivateAgent_agents[of b st]
proof
  assume "agents (db (snd (deactivateAgent b st))) = agents (db st)"
  then show ?thesis
    using deactivateAgent_admins assms by (rule invariant_cong)
next
  assume *: "agents (db (snd (deactivateAgent b st))) =
     map (\<lambda>a. if row_id a = b then a\<lparr>is_active := 0\<rparr> else a) (agents (db st))"
  have "length [x \<leftarrow> map (\<lambda>a. if row_id a = b then a\<lparr>is_active := 0\<rparr> else a) (agents (db st)).
          is_active x \<noteq> 0] \<le> length [x \<leftarrow> agents (db st). is_active x \<noteq> 0]"
    by (rule deactivate_rows_active)
  with assms show ?thesis
    by (simp only: wf_tables_def at_most_one_active_def * activate_rows_ids deactivateAgent_admins)
      simp
qed

lemma writes_keep_agents:
  "agents (db (setAgentSession k u n st)) = agents (db st)"
  "admins (db (setAgentSession k u n st)) = admins (db st)"
  "agents (db (addMessageMapping k u n st)) = agents (db st)"
  "admins (db (addMessageMapping k u n st)) = admins (db st)"
  "agents (db (logMessage now u n aid an d m st)) = agents (db st)"
  "admins (db (logMessage now u n aid an d m st)) = admins (db st)"
  by (simp_all add: write_defs)

lemma agent_branches_keep_agents:
  "agents (db (snd (agent_text e c st))) = agents (db st)"
  "admins (db (snd (agent_text e c st))) = admins (db st)"
  "agents (db (snd (agent_voice e c st))) = agents (db st)"
  "admins (db (snd (agent_voice e c st))) = admins (db st)"
  by (simp_all add: agent_text_def agent_voice_def writes_keep_agents
      split: prod.splits option.splits sum.splits)

lemma user_branches_keep_agents:
  "agents (db (snd (user_text e c st))) = agents (db st)"
  "admins (db (snd (user_text e c st))) = admins (db st)"
  "agents (db (snd (user_voice e c st))) = agents (db st)"
  "admins (db (snd (user_voice e c st))) = admins (db st)"
  by (simp_all add: user_text_def user_voice_def writes_keep_agents Let_def
      split: option.splits sum.splits)

lemma handlers_keep_agents:
  "agents (db (snd (on_text e c st))) = agents (db st)"
  "admins (db (snd (on_text e c st))) = admins (db st)"
  "agents (db (snd (on_voice e c st))) = agents (db st)"
  "admins (db (snd (on_voice e c st))) = admins (db st)"
  by (simp_all add: on_text_def on_voice_def agent_branches_keep_agents user_branches_keep_agents)

lemma apply_op_invariant:
  assumes "wf_tables (db st) \<and> at_most_one_active (db st)"
  shows "wf_tables (db (apply_op x st)) \<and> at_most_one_active (db (apply_op x st))"
proof (cases x)
  case (AddAdmin k)
  with addAdmin_invariant[OF assms] show ?thesis by simp
next
  case (RemoveAdmin k)
  with removeAdmin_invariant[OF assms] show ?thesis by simp
next
  case (AddAgent k nm)
  with addAgent_invariant[OF assms] show ?thesis by simp
next
  case (RemoveAgent k)
  with removeAgent_invariant[OF assms] show ?thesis by simp
next
  case (SetActiveAgent k)
  with setActiveAgent_invariant[of st k] assms show ?thesis by simp
next
  case (DeactivateAgent k)
  with deactivateAgent_invariant[OF assms] show ?thesis by simp
next
  case (SetAgentSession k u n)
  with invariant_cong[OF writes_keep_agents(1,2) assms] show ?thesis by simp
next
  case (AddMessageMapping k u n)
  with invariant_cong[OF writes_keep_agents(3,4) assms] show ?thesis by simp
next
  case (LogMessage now u n aid an d m)
  with invariant_cong[OF writes_keep_agents(5,6) assms] show ?thesis by simp
next
  case (OnText e c)
  with invariant_cong[OF handlers_keep_agents(1,2) assms] show ?thesis by simp
next
  case (OnVoice e c)
  with invariant_cong[OF handlers_keep_agents(3,4) assms] show ?thesis by simp
qed

lemma fold_apply_op_invariant:
  assumes "wf_tables (db st) \<and> at_most_one_active (db st)"
  shows "wf_tables (db (fold apply_op ops st)) \<and> at_most_one_active (db (fold apply_op ops st))"
  using assms
proof (induction ops arbitrary: st)
  case Nil
  then show ?case by simp
next
  case (Cons x ops)
  from Cons.prems have "wf_tables (db (apply_op x st)) \<and> at_most_one_active (db (apply_op x st))"
    by (rule apply_op_invariant)
  then have "wf_tables (db (fold apply_op ops (apply_op x st))) \<and>
             at_most_one_active (db (fold apply_op ops (apply_op x st)))"
    by (rule Cons.IH)
  then show ?case by simp
qed

lemma reactivate_other_row:
  "a \<noteq> b \<Longrightarrow>
   [x \<leftarrow> map (\<lambda>x. if row_id x = a then x\<lparr>is_active := 1\<rparr> else x) (map (\<lambda>x. x\<lparr>is_active := 0\<rparr>) xs).
      row_id x = b]
   = map (\<lambda>x. x\<lparr>is_active := 0\<rparr>) [x \<leftarrow> xs. row_id x = b]"
  by (induction xs) simp_all

lemma activated_rows_others_inactive:
  assumes "x \<in> set (map (\<lambda>x. if row_id x = b then x\<lparr>is_active := 1\<rparr> else x)
                     (map (\<lambda>x. x\<lparr>is_active := 0\<rparr>) xs))"
    and "row_id x \<noteq> b"
  shows "is_active x = 0"
proof -
  from assms(1)
  have "x \<in> (\<lambda>y. if row_id y = b then y\<lparr>is_active := 1\<rparr> else y\<lparr>is_active := 0\<rparr>) ` set xs"
    by (simp add: image_image)
  then obtain y where "x = (if row_id y = b then y\<lparr>is_active := 1\<rparr> else y\<lparr>is_active := 0\<rparr>)"
    by (rule imageE)
  with assms(2) show ?thesis
    by (cases "row_id y = b") simp_all
qed

lemma activate_twice:
  assumes d: "distinct (map row_id (agents (db st)))"
    and r: "r \<in> set (agents (db st))" "row_id r = b" and ab: "a \<noteq> b"
  shows "getActiveAgent (snd (setActiveAgent b (snd (setActiveAgent a st)))) = Some (r\<lparr>is_active := 1\<rparr>)"
    and "\<forall>x \<in> set (agents (db (snd (setActiveAgent b (snd (setActiveAgent a st)))))).
           row_id x \<noteq> b \<longrightarrow> is_active x = 0"
proof -
  let ?st1 = "snd (setActiveAgent a st)"
  let ?st2 = "snd (setActiveAgent b ?st1)"
  have rows: "[x \<leftarrow> agents (db st). row_id x = b] = [r]"
    using d r by (rule filter_key_shape)
  from setActiveAgent_agents[of a st]
  have "\<exists>r1. [x \<leftarrow> agents (db ?st1). row_id x = b] = [r1] \<and> r1\<lparr>is_active := 1\<rparr> = r\<lparr>is_active := 1\<rparr>"
  proof
    assume "agents (db ?st1) = agents (db st)"
    with rows show ?thesis by simp
  next
    assume "agents (db ?st1) =
      map (\<lambda>x. if row_id x = a then x\<lparr>is_active := 1\<rparr> else x) (map (\<lambda>x. x\<lparr>is_active := 0\<rparr>) (agents (db st)))"
    then have "[x \<leftarrow> agents (db ?st1). row_id x = b] = map (\<lambda>x. x\<lparr>is_active := 0\<rparr>) [x \<leftarrow> agents (db st). row_id x = b]"
      by (simp only: reactivate_other_row[OF ab])
    with rows show ?thesis by simp
  qed
  then obtain r1 where r1: "[x \<leftarrow> agents (db ?st1). row_id x = b] = [r1]"
    and same: "r1\<lparr>is_active := 1\<rparr> = r\<lparr>is_active := 1\<rparr>"
    by blast
  have ag2: "agents (db ?st2) =
     map (\<lambda>x. if row_id x = b then x\<lparr>is_active := 1\<rparr> else x) (map (\<lambda>x. x\<lparr>is_active := 0\<rparr>) (agents (db ?st1)))"
    using r1 by (simp add: setActiveAgent_def[of b] run_def saveDb_def clear_active_def set_active_def)
  have "[x \<leftarrow> agents (db ?st2). is_active x = 1] = map (\<lambda>x. x\<lparr>is_active := 1\<rparr>) [x \<leftarrow> agents (db ?st1). row_id x = b]"
    by (simp only: ag2 activate_rows_active1)
  with r1 same have "[x \<leftarrow> agents (db ?st2). is_active x = 1] = [r\<lparr>is_active := 1\<rparr>]"
    by simp
  then show "getActiveAgent ?st2 = Some (r\<lparr>is_active := 1\<rparr>)"
    by (simp add: getActiveAgent_def)
  show "\<forall>x \<in> set (agents (db ?st2)). row_id x \<noteq> b \<longrightarrow> is_active x = 0"
  proof (intro ballI impI)
    fix x
    assume "x \<in> set (agents (db ?st2))" and "row_id x \<noteq> b"
    then show "is_active x = 0"
      unfolding ag2 by (rule activated_rows_others_inactive)
  qed
qed

lemma addAgent_new:
  assumes "tid \<notin> telegram_id ` set (agents (db st))"
  shows "fst (addAgent tid nm st) = True"
    and "getAgentByTelegramId tid (snd (addAgent tid nm st))
         = Some \<lparr>row_id = next_rowid (db st), telegram_id = tid, name = nm, is_active = 0\<rparr>"
proof -
  from assms have none: "[a \<leftarrow> agents (db st). telegram_id a = tid] = []"
    by (auto simp: filter_empty_conv)
  from assms show "fst (addAgent tid nm st) = True"
    by (simp add: addAgent_def)
  from assms none show "getAgentByTelegramId tid (snd (addAgent tid nm st))
         = Some \<lparr>row_id = next_rowid (db st), telegram_id = tid, name = nm, is_active = 0\<rparr>"
    by (simp add: addAgent_def getAgentByTelegramId_def insert_agent_def run_def saveDb_def)
qed

text \<open>
  C4. On a database that satisfies the key constraints of the schema and in which at
  most one agent is active, every sequence of operations (the mutating functions of
  database.js and the two message handlers, with any arguments) leads to a database
  with the same two properties. If the agent with id \<open>b\<close> exists and \<open>a\<close> is a different
  id, then after \<open>setActiveAgent a\<close> and \<open>setActiveAgent b\<close>, \<open>getActiveAgent\<close> returns the row
  of \<open>b\<close> (now active) and every other row, the one of \<open>a\<close> among them, has
  \<open>is_active = 0\<close>. An agent added under a new telegram id is stored with
  \<open>is_active = 0\<close>. \<open>setActiveAgent\<close> of an id that no row has returns the
  "Agent not found" result and the store unchanged.
\<close>

theorem single_active_agent:
  assumes "wf_tables (db st)" and "at_most_one_active (db st)"
  shows "wf_tables (db (fold apply_op ops st)) \<and> at_most_one_active (db (fold apply_op ops st))
       \<and> (r \<in> set (agents (db st)) \<and> row_id r = b \<and> a \<noteq> b \<longrightarrow>
            getActiveAgent (snd (setActiveAgent b (snd (setActiveAgent a st))))
              = Some (r\<lparr>is_active := 1\<rparr>) \<and>
            (\<forall>x \<in> set (agents (db (snd (setActiveAgent b (snd (setActiveAgent a st)))))).
               row_id x \<noteq> b \<longrightarrow> is_active x = 0))
       \<and> (tid \<notin> telegram_id ` set (agents (db st)) \<longrightarrow>
            fst (addAgent tid nm st) = True \<and>
            getAgentByTelegramId tid (snd (addAgent tid nm st))
              = Some \<lparr>row_id = next_rowid (db st), telegram_id = tid, name = nm, is_active = 0\<rparr>)
       \<and> (k \<notin> row_id ` set (agents (db st)) \<longrightarrow> setActiveAgent k st = (NotFound, st))"
proof -
  from assms have inv: "wf_tables (db st) \<and> at_most_one_active (db st)"
    by simp
  from assms(1) have d: "distinct (map row_id (agents (db st)))"
    by (simp add: wf_tables_def)
  note 1 = fold_apply_op_invariant[OF inv, of ops]
  have 2: "r \<in> set (agents (db st)) \<and> row_id r = b \<and> a \<noteq> b \<longrightarrow>
            getActiveAgent (snd (setActiveAgent b (snd (setActiveAgent a st))))
              = Some (r\<lparr>is_active := 1\<rparr>) \<and>
            (\<forall>x \<in> set (agents (db (snd (setActiveAgent b (snd (setActiveAgent a st)))))).
               row_id x \<noteq> b \<longrightarrow> is_active x = 0)"
  proof (intro impI, elim conjE)
    assume "r \<in> set (agents (db st))" and "row_id r = b" and "a \<noteq> b"
    from activate_twice[OF d this]
    show "getActiveAgent (snd (setActiveAgent b (snd (setActiveAgent a st))))
              = Some (r\<lparr>is_active := 1\<rparr>) \<and>
            (\<forall>x \<in> set (agents (db (snd (setActiveAgent b (snd (setActiveAgent a st)))))).
               row_id x \<noteq> b \<longrightarrow> is_active x = 0)"
      by (rule conjI)
  qed
  have 3: "tid \<notin> telegram_id ` set (agents (db st)) \<longrightarrow>
            fst (addAgent tid nm st) = True \<and>
            getAgentByTelegramId tid (snd (addAgent tid nm st))
              = Some \<lparr>row_id = next_rowid (db st), telegram_id = tid, name = nm, is_active = 0\<rparr>"
  proof
    assume "tid \<notin> telegram_id ` set (agents (db st))"
    from addAgent_new[OF this, of nm]
    show "fst (addAgent tid nm st) = True \<and>
            getAgentByTelegramId tid (snd (addAgent tid nm st))
              = Some \<lparr>row_id = next_rowid (db st), telegram_id = tid, name = nm, is_active = 0\<rparr>"
      by (rule conjI)
  qed
  have 4: "k \<notin> row_id ` set (agents (db st)) \<longrightarrow> setActiveAgent k st = (NotFound, st)"
    using setActiveAgent_missing[of k st] by simp
  show ?thesis
    by (intro conjI) (rule 1[THEN conjunct1], rule 1[THEN conjunct2], rule 2, rule 3, rule 4)
qed

theorem single_active_agent_witness:
  "wf_tables (db ex_store) \<and> at_most_one_active (db ex_store)
   \<and> wf_tables (db (fold apply_op ex_ops ex_store))
   \<and> at_most_one_active (db (fold apply_op ex_ops ex_store))
   \<and> \<lparr>row_id = 2, telegram_id = 8, name = ''Bob'', is_active = 0\<rparr> \<in> set (agents (db ex_store))
   \<and> getActiveAgent (snd (setActiveAgent 2 (snd (setActiveAgent 1 ex_store))))
        = Some \<lparr>row_id = 2, telegram_id = 8, name = ''Bob'', is_active = 1\<rparr>
   \<and> 10 \<notin> telegram_id ` set (agents (db ex_store))
   \<and> fst (addAgent 10 ''Dan'' ex_store) = True
   \<and> getAgentByTelegramId 10 (snd (addAgent 10 ''Dan'' ex_store))
        = Some \<lparr>row_id = 4, telegram_id = 10, name = ''Dan'', is_active = 0\<rparr>
   \<and> 55 \<notin> row_id ` set (agents (db ex_store))
   \<and> setActiveAgent 55 ex_store = (NotFound, ex_store)"
proof -
  have w: "wf_tables (db ex_store)"
    by (simp add: wf_tables_def ex_defs)
  have i: "at_most_one_active (db ex_store)"
    by (simp add: at_most_one_active_def ex_defs)
  have bob: "\<lparr>row_id = 2, telegram_id = 8, name = ''Bob'', is_active = 0\<rparr> \<in> set (agents (db ex_store))"
    by (simp add: ex_defs)
  have new: "10 \<notin> telegram_id ` set (agents (db ex_store))"
    by (simp add: ex_defs)
  have missing: "55 \<notin> row_id ` set (agents (db ex_store))"
    by (simp add: ex_defs)
  have nxt: "next_rowid (db ex_store) = 4"
    by (simp add: next_rowid_def ex_defs)
  from single_active_agent[OF w i, where ops = ex_ops and b = 2 and a = 1 and tid = 10
      and nm = "''Dan''" and k = 55
      and r = "\<lparr>row_id = 2, telegram_id = 8, name = ''Bob'', is_active = 0\<rparr>"]
    w i bob new missing
  show ?thesis by (simp add: nxt)
qed

section \<open>Removing an agent\<close>

lemma distinct_key_eq:
  assumes "distinct (map f xs)" and "x \<in> set xs" and "y \<in> set xs" and "f x = f y"
  shows "x = y"
proof -
  from assms(1) have "inj_on f (set xs)"
    by (simp add: distinct_map)
  with assms(2-4) show ?thesis
    by (auto dest: inj_onD)
qed

lemma removeAgent_found:
  assumes "distinct (map row_id (agents (db st)))" and "r \<in> set (agents (db st))"
    and "row_id r = agentId"
  shows "removeAgent agentId st =
           (Success ''Agent removed successfully'',
            \<lparr>db = without_agent agentId (telegram_id r) (db st),
             saved = saved st @ [without_agent agentId (telegram_id r) (db st)]\<rparr>)"
  using filter_key_shape[OF assms]
  by (cases st)
    (simp add: removeAgent_def run_def saveDb_def delete_agent_def delete_admin_def
      delete_session_def without_agent_def Let_def)

lemma removeAgent_missing:
  assumes "k \<notin> row_id ` set (agents (db st))"
  shows "removeAgent k st = (NotFound, st)"
proof -
  from assms have "[a \<leftarrow> agents (db st). row_id a = k] = []"
    by (auto simp: filter_empty_conv)
  then show ?thesis by (simp add: removeAgent_def)
qed

text \<open>
  C5. On a database that satisfies the key constraints, \<open>removeAgent\<close> of the id of an
  existing agent row \<open>r\<close> succeeds and yields the store whose tables lack the row, every
  admin entry with the row's telegram id, and the session of that telegram id, all
  other data being as before; the one image it saves to the file is that of these final
  tables, so neither the returned store nor the file ever holds a state in which only
  some of the three are deleted. Afterwards the telegram id is neither an agent nor an
  admin and has no session. For an id that no row has, \<open>removeAgent\<close> returns the "Agent
  not found" result and the store unchanged.
\<close>

theorem removeAgent_cascade:
  assumes "wf_tables (db st)" and "r \<in> set (agents (db st))" and "row_id r = agentId"
  shows "removeAgent agentId st =
           (Success ''Agent removed successfully'',
            \<lparr>db = without_agent agentId (telegram_id r) (db st),
             saved = saved st @ [without_agent agentId (telegram_id r) (db st)]\<rparr>)
       \<and> agentId \<notin> row_id ` set (agents (db (snd (removeAgent agentId st))))
       \<and> \<not> isAgent (telegram_id r) (snd (removeAgent agentId st))
       \<and> \<not> isAdmin (telegram_id r) (snd (removeAgent agentId st))
       \<and> getAgentSession (telegram_id r) (snd (removeAgent agentId st)) = None
       \<and> (k \<notin> row_id ` set (agents (db st)) \<longrightarrow> removeAgent k st = (NotFound, st))"
proof -
  from assms(1) have d: "distinct (map row_id (agents (db st)))"
    and dt: "distinct (map telegram_id (agents (db st)))"
    by (simp_all add: wf_tables_def)
  note 1 = removeAgent_found[OF d assms(2,3)]
  have 2: "agentId \<notin> row_id ` set (agents (db (snd (removeAgent agentId st))))"
    by (auto simp: 1 without_agent_def)
  have "\<forall>a \<in> set (agents (db st)). row_id a \<noteq> agentId \<longrightarrow> telegram_id a \<noteq> telegram_id r"
    using distinct_key_eq[OF dt _ assms(2)] assms(3) by blast
  then have 3: "\<not> isAgent (telegram_id r) (snd (removeAgent agentId st))"
    by (auto simp add: 1 without_agent_def isAgent_def filter_empty_conv)
  have 4: "\<not> isAdmin (telegram_id r) (snd (removeAgent agentId st))"
    by (simp add: 1 without_agent_def isAdmin_def filter_empty_conv)
  have 5: "getAgentSession (telegram_id r) (snd (removeAgent agentId st)) = None"
    by (simp add: 1 without_agent_def getAgentSession_def)
  have 6: "k \<notin> row_id ` set (agents (db st)) \<longrightarrow> removeAgent k st = (NotFound, st)"
    using removeAgent_missing[of k st] by simp
  show ?thesis
    by (intro conjI) (rule 1, rule 2, rule 3, rule 4, rule 5, rule 6)
qed

theorem removeAgent_cascade_witness:
  "wf_tables (db ex_admin_agent_store)
   \<and> \<lparr>row_id = 1, telegram_id = 7, name = ''Alice'', is_active = 1\<rparr>
        \<in> set (agents (db ex_admin_agent_store))
   \<and> isAgent 7 ex_admin_agent_store \<and> isAdmin 7 ex_admin_agent_store
   \<and> getAgentSession 7 ex_admin_agent_store = Some \<lparr>userId = 42, userName = ''Dana''\<rparr>
   \<and> removeAgent 1 ex_admin_agent_store =
        (Success ''Agent removed successfully'',
         \<lparr>db = without_agent 1 7 (db ex_admin_agent_store),
          saved = saved ex_admin_agent_store @ [without_agent 1 7 (db ex_admin_agent_store)]\<rparr>)
   \<and> 1 \<notin> row_id ` set (agents (db (snd (removeAgent 1 ex_admin_agent_store))))
   \<and> \<not> isAgent 7 (snd (removeAgent 1 ex_admin_agent_store))
   \<and> \<not> isAdmin 7 (snd (removeAgent 1 ex_admin_agent_store))
   \<and> getAgentSession 7 (snd (removeAgent 1 ex_admin_agent_store)) = None
   \<and> 55 \<notin> row_id ` set (agents (db ex_admin_agent_store))
   \<and> removeAgent 55 ex_admin_agent_store = (NotFound, ex_admin_agent_store)
   \<and> map name (agents (without_agent 1 7 (db ex_admin_agent_store))) = [''Bob'', ''Cleo'']
   \<and> admins (without_agent 1 7 (db ex_admin_agent_store)) = [99]"
proof -
  have w: "wf_tables (db ex_admin_agent_store)"
    by (simp add: wf_tables_def ex_defs ex_defs2)
  have alice: "\<lparr>row_id = 1, telegram_id = 7, name = ''Alice'', is_active = 1\<rparr>
        \<in> set (agents (db ex_admin_agent_store))"
    by (simp add: ex_defs ex_defs2)
  have before: "isAgent 7 ex_admin_agent_store" "isAdmin 7 ex_admin_agent_store"
    "getAgentSession 7 ex_admin_agent_store = Some \<lparr>userId = 42, userName = ''Dana''\<rparr>"
    by (simp_all add: ex_defs ex_defs2 query_defs)
  have missing: "55 \<notin> row_id ` set (agents (db ex_admin_agent_store))"
    by (simp add: ex_defs ex_defs2)
  have vals: "map name (agents (without_agent 1 7 (db ex_admin_agent_store))) = [''Bob'', ''Cleo'']"
    "admins (without_agent 1 7 (db ex_admin_agent_store)) = [99]"
    by (simp_all add: without_agent_def ex_defs ex_defs2)
  have rid: "row_id \<lparr>row_id = 1, telegram_id = 7, name = ''Alice'', is_active = 1\<rparr> = 1"
    and tid: "telegram_id \<lparr>row_id = 1, telegram_id = 7, name = ''Alice'', is_active = 1\<rparr> = 7"
    by simp_all
  note t = removeAgent_cascade[OF w alice rid, of 55, unfolded tid]
  note t1 = t[THEN conjunct1]
  note t2 = t[THEN conjunct2, THEN conjunct1]
  note t3 = t[THEN conjunct2, THEN conjunct2, THEN conjunct1]
  note t4 = t[THEN conjunct2, THEN conjunct2, THEN conjunct2, THEN conjunct1]
  note t5 = t[THEN conjunct2, THEN conjunct2, THEN conjunct2, THEN conjunct2, THEN conjunct1]
  note t6 = t[THEN conjunct2, THEN conjunct2, THEN conjunct2, THEN conjunct2, THEN conjunct2,
      THEN mp, OF missing]
  show ?thesis
    by (intro conjI)
      (rule w, rule alice, rule before(1), rule before(2), rule before(3), rule t1, rule t2,
       rule t3, rule t4, rule t5, rule missing, rule t6, rule vals(1), rule vals(2))
qed

end
